theory Spec2Isabelle
  imports Main
begin

section \<open>Strings and numbers as the crawler uses them\<close>

text \<open>
  The scripts are JavaScript. A string is modelled as a \<^typ>\<open>string\<close> holding its
  UTF-8 bytes, the form in which \<^verbatim>\<open>fs.writeFileSync\<close> puts it on disk. Every
  character outside ASCII is a run of bytes from 128 upwards, so it is neither a letter
  nor a digit for the sanitiser below, exactly as its UTF-16 code units are not.
  A JavaScript error is represented by its \<^verbatim>\<open>message\<close>.
\<close>

type_synonym message = string

definition code :: "char \<Rightarrow> nat" where
  "code c = of_char c"

text \<open>\<^verbatim>\<open>String(n)\<close> for a non-negative integer: its decimal digits.\<close>

definition digit_char :: "nat \<Rightarrow> char" where
  "digit_char d = char_of (48 + d)"

fun String :: "nat \<Rightarrow> string" where
  "String n = (if n < 10 then [digit_char n] else String (n div 10) @ [digit_char (n mod 10)])"

declare String.simps [simp del]

text \<open>\<^verbatim>\<open>s.padStart(2, '0')\<close>\<close>

definition padStart2 :: "string \<Rightarrow> string" where
  "padStart2 s = replicate (2 - length s) (CHR ''0'') @ s"

text \<open>
  \<^verbatim>\<open>
  const safeFilename = link.text
      .replace(/[^a-z0-9]/gi, '-')
      .replace(/-+/g, '-')
      .toLowerCase()
      .substring(0, 50);
  \<close>
\<close>

definition is_alnum :: "char \<Rightarrow> bool" where
  "is_alnum c = (let n = code c in (48 \<le> n \<and> n \<le> 57) \<or> (65 \<le> n \<and> n \<le> 90) \<or> (97 \<le> n \<and> n \<le> 122))"

definition replace_non_alnum :: "string \<Rightarrow> string" where
  "replace_non_alnum s = map (\<lambda>c. if is_alnum c then c else CHR ''-'') s"

fun collapse_dashes :: "string \<Rightarrow> string" where
  "collapse_dashes (a # b # cs) =
     (if a = CHR ''-'' \<and> b = CHR ''-'' then collapse_dashes (b # cs)
      else a # collapse_dashes (b # cs))"
| "collapse_dashes cs = cs"

text \<open>\<^verbatim>\<open>toLowerCase\<close> on the ASCII range, the only characters left after the replacement.\<close>

definition lower_char :: "char \<Rightarrow> char" where
  "lower_char c = (let n = code c in if 65 \<le> n \<and> n \<le> 90 then char_of (n + 32) else c)"

definition toLowerCase :: "string \<Rightarrow> string" where
  "toLowerCase s = map lower_char s"

definition safeFilename :: "string \<Rightarrow> string" where
  "safeFilename text = take 50 (toLowerCase (collapse_dashes (replace_non_alnum text)))"

text \<open>
  \<^verbatim>\<open>
  const screenshotFilename = `${String(linkNum).padStart(2, '0')}-${safeFilename}.png`;
  const mdFilename = `${String(linkNum).padStart(2, '0')}-${safeFilename}.md`;
  \<close>
\<close>

definition numbered :: "nat \<Rightarrow> string \<Rightarrow> string" where
  "numbered linkNum text = padStart2 (String linkNum) @ ''-'' @ safeFilename text"

definition screenshotFilename :: "nat \<Rightarrow> string \<Rightarrow> string" where
  "screenshotFilename linkNum text = numbered linkNum text @ ''.png''"

definition mdFilename :: "nat \<Rightarrow> string \<Rightarrow> string" where
  "mdFilename linkNum text = numbered linkNum text @ ''.md''"

text \<open>\<^verbatim>\<open>path.join(a, b)\<close> for a directory and a name without separators or dots-only parts.\<close>

definition path_join :: "string \<Rightarrow> string \<Rightarrow> string" where
  "path_join a b = a @ ''/'' @ b"

section \<open>The page as the in-page scripts read it\<close>

text \<open>
  \<^verbatim>\<open>s.trim()\<close> removes the white space and line terminators of ECMAScript from both
  ends; each is listed here by its UTF-8 bytes.
\<close>

definition js_whitespace :: "string list" where
  "js_whitespace =
     [[CHR 0x09], [CHR 0x0A], [CHR 0x0B], [CHR 0x0C],
      [CHR 0x0D], [CHR 0x20],
      [CHR 0xC2, CHR 0xA0],
      [CHR 0xE1, CHR 0x9A, CHR 0x80],
      [CHR 0xE2, CHR 0x80, CHR 0x80],
      [CHR 0xE2, CHR 0x80, CHR 0x81],
      [CHR 0xE2, CHR 0x80, CHR 0x82],
      [CHR 0xE2, CHR 0x80, CHR 0x83],
      [CHR 0xE2, CHR 0x80, CHR 0x84],
      [CHR 0xE2, CHR 0x80, CHR 0x85],
      [CHR 0xE2, CHR 0x80, CHR 0x86],
      [CHR 0xE2, CHR 0x80, CHR 0x87],
      [CHR 0xE2, CHR 0x80, CHR 0x88],
      [CHR 0xE2, CHR 0x80, CHR 0x89],
      [CHR 0xE2, CHR 0x80, CHR 0x8A],
      [CHR 0xE2, CHR 0x80, CHR 0xA8],
      [CHR 0xE2, CHR 0x80, CHR 0xA9],
      [CHR 0xE2, CHR 0x80, CHR 0xAF],
      [CHR 0xE2, CHR 0x81, CHR 0x9F],
      [CHR 0xE3, CHR 0x80, CHR 0x80],
      [CHR 0xEF, CHR 0xBB, CHR 0xBF]]"

definition is_prefix :: "string \<Rightarrow> string \<Rightarrow> bool" where
  "is_prefix p s = (take (length p) s = p)"

text \<open>The length of the white-space character \<open>s\<close> starts with, if it starts with one.\<close>

definition leading_ws :: "string \<Rightarrow> nat option" where
  "leading_ws s = map_option length (find (\<lambda>w. is_prefix w s) js_whitespace)"

definition trailing_ws :: "string \<Rightarrow> nat option" where
  "trailing_ws s = map_option length (find (\<lambda>w. is_prefix (rev w) (rev s)) js_whitespace)"

fun trimStart_fuel :: "nat \<Rightarrow> string \<Rightarrow> string" where
  "trimStart_fuel 0 s = s"
| "trimStart_fuel (Suc k) s =
     (case leading_ws s of None \<Rightarrow> s | Some n \<Rightarrow> trimStart_fuel k (drop n s))"

fun trimEnd_fuel :: "nat \<Rightarrow> string \<Rightarrow> string" where
  "trimEnd_fuel 0 s = s"
| "trimEnd_fuel (Suc k) s =
     (case trailing_ws s of None \<Rightarrow> s | Some n \<Rightarrow> trimEnd_fuel k (take (length s - n) s))"

text \<open>Each step removes at least one byte, so \<open>length s\<close> steps always suffice.\<close>

definition trim :: "string \<Rightarrow> string" where
  "trim s = (let t = trimStart_fuel (length s) s in trimEnd_fuel (length t) t)"

subsection \<open>The document tree\<close>

text \<open>
  An element has its lower-case tag name, its attributes in source order and its child
  nodes. A document is what the HTML parser always builds: an \<^verbatim>\<open>html\<close> element
  holding a \<^verbatim>\<open>head\<close> and a \<^verbatim>\<open>body\<close>; \<^verbatim>\<open>document.title\<close> and
  \<^verbatim>\<open>window.location.href\<close> are given with it.
\<close>

type_synonym attrs = "(string \<times> string) list"

datatype node = Text string | Element string attrs "node list"

record document =
  doc_title :: string
  doc_url :: string
  html_attrs :: attrs
  head_nodes :: "node list"
  body_attrs :: attrs
  body_nodes :: "node list"

definition document_body :: "document \<Rightarrow> node" where
  "document_body d = Element ''body'' (body_attrs d) (body_nodes d)"

definition document_root :: "document \<Rightarrow> node" where
  "document_root d = Element ''html'' (html_attrs d) [Element ''head'' [] (head_nodes d), document_body d]"

fun childNodes :: "node \<Rightarrow> node list" where
  "childNodes (Text s) = []"
| "childNodes (Element t as ks) = ks"

fun tag_of :: "node \<Rightarrow> string" where
  "tag_of (Text s) = []"
| "tag_of (Element t as ks) = t"

fun getAttribute :: "node \<Rightarrow> string \<Rightarrow> string option" where
  "getAttribute (Text s) name = None"
| "getAttribute (Element t as ks) name = map_of as name"

text \<open>The nodes of a subtree in document order (pre-order), the root first.\<close>

fun subtree :: "node \<Rightarrow> node list" where
  "subtree (Text s) = [Text s]"
| "subtree (Element t as ks) = Element t as ks # concat (map subtree ks)"

definition descendants :: "node \<Rightarrow> node list" where
  "descendants n = concat (map subtree (childNodes n))"

fun textContent :: "node \<Rightarrow> string" where
  "textContent (Text s) = s"
| "textContent (Element t as ks) = concat (map textContent ks)"

subsection \<open>Selectors\<close>

text \<open>
  The selectors the scripts use are groups (\<^verbatim>\<open>a, b\<close>) of compound selectors, each a
  conjunction of simple ones: a tag, \<^verbatim>\<open>.class\<close>, \<^verbatim>\<open>#id\<close>, \<^verbatim>\<open>[attr]\<close>,
  \<^verbatim>\<open>[attr="v"]\<close> and \<^verbatim>\<open>*\<close>.
\<close>

datatype simple = Tag string | Class string | Id string | HasAttr string | AttrEq string string | Universal

type_synonym selector = "simple list list"

definition is_html_space :: "char \<Rightarrow> bool" where
  "is_html_space c = (code c \<in> {9, 10, 12, 13, 32})"

fun tokens :: "string \<Rightarrow> string \<Rightarrow> string list" where
  "tokens cur [] = (if cur = [] then [] else [cur])"
| "tokens cur (c # cs) =
     (if is_html_space c then (if cur = [] then tokens [] cs else cur # tokens [] cs)
      else tokens (cur @ [c]) cs)"

definition classList :: "node \<Rightarrow> string list" where
  "classList n = (case getAttribute n ''class'' of None \<Rightarrow> [] | Some v \<Rightarrow> tokens [] v)"

fun matches_simple :: "node \<Rightarrow> simple \<Rightarrow> bool" where
  "matches_simple (Text s) x = False"
| "matches_simple (Element t as ks) (Tag u) = (t = u)"
| "matches_simple (Element t as ks) (Class c) = (c \<in> set (classList (Element t as ks)))"
| "matches_simple (Element t as ks) (Id i) = (map_of as ''id'' = Some i)"
| "matches_simple (Element t as ks) (HasAttr a) = (map_of as a \<noteq> None)"
| "matches_simple (Element t as ks) (AttrEq a v) = (map_of as a = Some v)"
| "matches_simple (Element t as ks) Universal = True"

definition matches :: "selector \<Rightarrow> node \<Rightarrow> bool" where
  "matches sel n = list_ex (\<lambda>compound. list_all (matches_simple n) compound) sel"

text \<open>\<^verbatim>\<open>document.querySelector\<close>, \<^verbatim>\<open>document.querySelectorAll\<close>, and the same on an element.\<close>

definition doc_querySelector :: "document \<Rightarrow> selector \<Rightarrow> node option" where
  "doc_querySelector d sel = find (matches sel) (subtree (document_root d))"

definition doc_querySelectorAll :: "document \<Rightarrow> selector \<Rightarrow> node list" where
  "doc_querySelectorAll d sel = filter (matches sel) (subtree (document_root d))"

definition querySelectorAll :: "node \<Rightarrow> selector \<Rightarrow> node list" where
  "querySelectorAll n sel = filter (matches sel) (descendants n)"

section \<open>The link extractor\<close>

text \<open>
  What the page itself cannot tell is taken from the browser engine and the libraries:
  the absolute URL \<^verbatim>\<open>a.href\<close> of an anchor (from the document's URL and the
  attribute), the serialisation \<^verbatim>\<open>innerHTML\<close> of a list of child nodes, the
  Markdown that Turndown makes of an HTML string, and \<^verbatim>\<open>JSON.stringify\<close>.
\<close>

record link =
  link_text :: string
  link_href :: string
  link_title :: string

record crawl_result =
  success :: bool
  result_link :: string
  result_url :: string
  result_filename :: "string option"
  result_error :: "message option"

record engine =
  resolve :: "string \<Rightarrow> string \<Rightarrow> string"
  innerHTML :: "node list \<Rightarrow> string"
  turndown :: "string \<Rightarrow> string"
  stringify :: "crawl_result list \<Rightarrow> string"

text \<open>
  \<^verbatim>\<open>
  const mainWrapper = document.querySelector('#main-wrapper');
  if (!mainWrapper) {
      return { error: 'Could not find #main-wrapper element' };
  }
  const links = Array.from(mainWrapper.querySelectorAll('a[href]'))
      .map(a => ({
          text: a.textContent.trim(),
          href: a.href,
          title: a.title || a.textContent.trim()
      }))
      .filter(link => link.href && link.text);
  const clone = mainWrapper.cloneNode(true);
  clone.querySelectorAll('*').forEach(el => { el.removeAttribute('class'); });
  const mainWrapperHTML = clone.innerHTML;
  return { links, mainWrapperHTML: mainWrapperHTML };
  \<close>
  The returned object is either the one with \<^verbatim>\<open>error\<close> or the one with
  \<^verbatim>\<open>links\<close> and \<^verbatim>\<open>mainWrapperHTML\<close>.
\<close>

datatype wrapper_data = WrapperError message | WrapperFound "link list" string

definition attr_or_empty :: "node \<Rightarrow> string \<Rightarrow> string" where
  "attr_or_empty n name = (case getAttribute n name of None \<Rightarrow> [] | Some v \<Rightarrow> v)"

definition anchor_link :: "engine \<Rightarrow> document \<Rightarrow> node \<Rightarrow> link" where
  "anchor_link eng d a =
     \<lparr>link_text = trim (textContent a),
      link_href = resolve eng (doc_url d) (attr_or_empty a ''href''),
      link_title = (if attr_or_empty a ''title'' \<noteq> [] then attr_or_empty a ''title''
                    else trim (textContent a))\<rparr>"

definition extract_links :: "engine \<Rightarrow> document \<Rightarrow> node \<Rightarrow> link list" where
  "extract_links eng d mainWrapper =
     filter (\<lambda>l. link_href l \<noteq> [] \<and> link_text l \<noteq> [])
       (map (anchor_link eng d) (querySelectorAll mainWrapper [[Tag ''a'', HasAttr ''href'']]))"

fun removeClass :: "node \<Rightarrow> node" where
  "removeClass (Text s) = Text s"
| "removeClass (Element t as ks) =
     Element t (filter (\<lambda>kv. fst kv \<noteq> ''class'') as) (map removeClass ks)"

definition mainWrapperData :: "engine \<Rightarrow> document \<Rightarrow> wrapper_data" where
  "mainWrapperData eng d =
     (case doc_querySelector d [[Id ''main-wrapper'']] of
        None \<Rightarrow> WrapperError ''Could not find #main-wrapper element''
      | Some mainWrapper \<Rightarrow>
          WrapperFound (extract_links eng d mainWrapper)
            (innerHTML eng (map removeClass (childNodes mainWrapper))))"

text \<open>
  \<^verbatim>\<open>
  Array.from(document.querySelectorAll('[id]'))
      .map(el => ({ id: el.id, tag: el.tagName })).slice(0, 20)
  \<close>
\<close>

definition upper_char :: "char \<Rightarrow> char" where
  "upper_char c = (let n = code c in if 97 \<le> n \<and> n \<le> 122 then char_of (n - 32) else c)"

definition tagName :: "node \<Rightarrow> string" where
  "tagName n = map upper_char (tag_of n)"

definition sections :: "document \<Rightarrow> (string \<times> string) list" where
  "sections d =
     take 20 (map (\<lambda>el. (attr_or_empty el ''id'', tagName el)) (doc_querySelectorAll d [[HasAttr ''id'']]))"

section \<open>The content renderer\<close>

text \<open>
  \<^verbatim>\<open>
  const clone = document.body.cloneNode(true);
  clone.querySelectorAll('script, style, nav, header, footer, .nav, .menu, .sidebar')
       .forEach(el => el.remove());
  return {
      title: document.title,
      url: window.location.href,
      h1: document.querySelector('h1')?.textContent.trim() || '',
      metaDescription: document.querySelector('meta[name="description"]')?.content || '',
      bodyHTML: clone.innerHTML,
      mainContent: document.querySelector('main, article, .content, .main, #content')?.innerHTML
                   || clone.innerHTML,
      headings: Array.from(document.querySelectorAll('h1, h2, h3, h4, h5, h6'))
          .map(h => ({ level: h.tagName, text: h.textContent.trim() })),
      paragraphs: Array.from(document.querySelectorAll('p'))
          .map(p => p.textContent.trim()).filter(text => text.length > 20)
  };
  \<close>
\<close>

definition non_content :: selector where
  "non_content = [[Tag ''script''], [Tag ''style''], [Tag ''nav''], [Tag ''header''], [Tag ''footer''],
                  [Class ''nav''], [Class ''menu''], [Class ''sidebar'']]"

definition content_candidates :: selector where
  "content_candidates = [[Tag ''main''], [Tag ''article''], [Class ''content''], [Class ''main''], [Id ''content'']]"

definition heading_tags :: selector where
  "heading_tags = [[Tag ''h1''], [Tag ''h2''], [Tag ''h3''], [Tag ''h4''], [Tag ''h5''], [Tag ''h6'']]"

text \<open>Removing every descendant that matches: the node itself is never among them.\<close>

fun remove_matching :: "selector \<Rightarrow> node \<Rightarrow> node" where
  "remove_matching sel (Text s) = Text s"
| "remove_matching sel (Element t as ks) =
     Element t as (map (remove_matching sel) (filter (\<lambda>k. \<not> matches sel k) ks))"

definition stripped_body :: "document \<Rightarrow> node" where
  "stripped_body d = remove_matching non_content (document_body d)"

text \<open>\<^verbatim>\<open>text.length\<close>: the number of UTF-16 code units of a string given by its UTF-8 bytes.\<close>

definition units :: "char \<Rightarrow> nat" where
  "units c = (let n = code c in if n < 128 then 1 else if n < 192 then 0 else if n < 240 then 1 else 2)"

definition js_length :: "string \<Rightarrow> nat" where
  "js_length s = sum_list (map units s)"

record page_data =
  pd_title :: string
  pd_url :: string
  pd_h1 :: string
  pd_metaDescription :: string
  pd_bodyHTML :: string
  pd_mainContent :: string
  pd_headings :: "(string \<times> string) list"
  pd_paragraphs :: "string list"

definition mainContent :: "engine \<Rightarrow> document \<Rightarrow> string" where
  "mainContent eng d =
     (case doc_querySelector d content_candidates of
        None \<Rightarrow> innerHTML eng (childNodes (stripped_body d))
      | Some el \<Rightarrow>
          if innerHTML eng (childNodes el) \<noteq> [] then innerHTML eng (childNodes el)
          else innerHTML eng (childNodes (stripped_body d)))"

definition pageData :: "engine \<Rightarrow> document \<Rightarrow> page_data" where
  "pageData eng d =
     \<lparr>pd_title = doc_title d,
      pd_url = doc_url d,
      pd_h1 = (case doc_querySelector d [[Tag ''h1'']] of None \<Rightarrow> [] | Some h \<Rightarrow> trim (textContent h)),
      pd_metaDescription =
        (case doc_querySelector d [[Tag ''meta'', AttrEq ''name'' ''description'']] of
           None \<Rightarrow> [] | Some m \<Rightarrow> attr_or_empty m ''content''),
      pd_bodyHTML = innerHTML eng (childNodes (stripped_body d)),
      pd_mainContent = mainContent eng d,
      pd_headings = map (\<lambda>h. (tagName h, trim (textContent h))) (doc_querySelectorAll d heading_tags),
      pd_paragraphs =
        filter (\<lambda>text. 20 < js_length text) (map (\<lambda>p. trim (textContent p)) (doc_querySelectorAll d [[Tag ''p'']]))\<rparr>"

section \<open>The documents written for a link\<close>

text \<open>
  \<^verbatim>\<open>'  '.repeat(parseInt(heading.level.charAt(1)) - 1)\<close>; the level is one of
  \<^verbatim>\<open>H1\<close> to \<^verbatim>\<open>H6\<close>, the tag names the heading selector can match.
\<close>

definition heading_indent :: "string \<Rightarrow> string" where
  "heading_indent level =
     (case level of [h, c] \<Rightarrow> concat (replicate (code c - 48 - 1) ''  '') | _ \<Rightarrow> [])"

definition page_structure :: "(string \<times> string) list \<Rightarrow> string" where
  "page_structure hs =
     (if hs = [] then []
      else ''## Page Structure\<newline>\<newline>''
           @ concat (map (\<lambda>(level, text). heading_indent level @ ''- '' @ text @ ''\<newline>'') hs)
           @ ''\<newline>'')"

definition markdown :: "link \<Rightarrow> page_data \<Rightarrow> string \<Rightarrow> string \<Rightarrow> string" where
  "markdown l pd shot contentMarkdown =
     ''# '' @ (if pd_title pd \<noteq> [] then pd_title pd else link_text l) @ ''\<newline>\<newline>''
     @ ''**URL:** '' @ pd_url pd @ ''\<newline>\<newline>''
     @ ''**Source Link:** '' @ link_text l @ ''\<newline>\<newline>''
     @ (if pd_metaDescription pd \<noteq> [] then ''**Description:** '' @ pd_metaDescription pd @ ''\<newline>\<newline>'' else [])
     @ ''---\<newline>\<newline>''
     @ ''## Screenshot\<newline>\<newline>''
     @ ''!['' @ link_text l @ ''](images/'' @ shot @ '')\<newline>\<newline>''
     @ ''---\<newline>\<newline>''
     @ (if pd_h1 pd \<noteq> [] then ''## '' @ pd_h1 pd @ ''\<newline>\<newline>'' else [])
     @ ''## Content\<newline>\<newline>''
     @ contentMarkdown
     @ ''\<newline>\<newline>---\<newline>\<newline>''
     @ page_structure (pd_headings pd)"

text \<open>The index: its header, and the entry a link gets when it succeeded and when it failed.\<close>

definition index_header :: "string \<Rightarrow> nat \<Rightarrow> string" where
  "index_header date n =
     ''# Main Wrapper Links Crawl\<newline>\<newline>''
     @ ''**Date:** '' @ date @ ''\<newline>\<newline>''
     @ ''**Source:** https://www.ideabrowser.com/\<newline>\<newline>''
     @ ''**Total Links Found:** '' @ String n @ ''\<newline>\<newline>''
     @ ''---\<newline>\<newline>''
     @ ''## Links\<newline>\<newline>''"

definition success_entry :: "nat \<Rightarrow> link \<Rightarrow> page_data \<Rightarrow> string \<Rightarrow> string \<Rightarrow> string" where
  "success_entry linkNum l pd md shot =
     ''### '' @ String linkNum @ ''. ['' @ link_text l @ '']('' @ md @ '')\<newline>\<newline>''
     @ ''- **URL:** '' @ pd_url pd @ ''\<newline>''
     @ ''- **Title:** '' @ pd_title pd @ ''\<newline>''
     @ (if pd_metaDescription pd \<noteq> [] then ''- **Description:** '' @ pd_metaDescription pd @ ''\<newline>'' else [])
     @ ''\<newline>![Preview](images/'' @ shot @ '')\<newline>\<newline>''
     @ ''---\<newline>\<newline>''"

text \<open>The warning sign of the error entry (U+26A0 U+FE0F), in UTF-8.\<close>

definition warning_sign :: string where
  "warning_sign = [CHR 0xE2, CHR 0x9A, CHR 0xA0,
                   CHR 0xEF, CHR 0xB8, CHR 0x8F]"

definition error_entry :: "nat \<Rightarrow> link \<Rightarrow> message \<Rightarrow> string" where
  "error_entry linkNum l msg =
     ''### '' @ String linkNum @ ''. '' @ link_text l @ '' '' @ warning_sign @ '' ERROR\<newline>\<newline>''
     @ ''- **URL:** '' @ link_href l @ ''\<newline>''
     @ ''- **Error:** '' @ msg @ ''\<newline>\<newline>''
     @ ''---\<newline>\<newline>''"

section \<open>The browser, the file system and the run\<close>

text \<open>
  The browser and the file system are outside the program. What they do during the visit of
  one link is a \<open>visit\<close>: each awaited call that can reject, in the order of the
  \<^verbatim>\<open>try\<close> block, with the document as it stands when the content is extracted and
  the bytes of the captured image. Every awaited call is taken to settle: it is fulfilled
  or it is rejected, by its timeout at the latest.
\<close>

record visit =
  goto_fails :: "message option"
  scroll_fails :: "message option"
  screenshot :: "message + string"
  page_document :: "message + document"
  md_write_fails :: "message option"

text \<open>
  The same for the whole run, in the order of the script: launching the browser, preparing
  the page (\<^verbatim>\<open>newPage\<close>, user agent, headers, \<^verbatim>\<open>evaluateOnNewDocument\<close>), the two
  readings of the clock, the output directory, the homepage, the three writes outside the
  loop and closing the browser. \<open>site n url\<close> is the visit that the navigation number
  \<open>n\<close> to \<open>url\<close> gets.
\<close>

record env =
  lib :: engine
  launch_fails :: "message option"
  page_setup_fails :: "message option"
  dir_clock :: string
  imagesDir_exists :: bool
  mkdir_fails :: "message option"
  home_goto_fails :: "message option"
  home_document :: "message + document"
  sections_fails :: "message option"
  html_write_fails :: "message option"
  index_clock :: string
  site :: "nat \<Rightarrow> string \<Rightarrow> visit"
  index_write_fails :: "message option"
  results_write_fails :: "message option"
  close_fails :: "message option"

text \<open>
  The effects of a run: the directories made and the files written, in order, the URLs
  navigated to, in order, what \<^verbatim>\<open>console.error\<close> and the diagnostic branches print
  (the progress lines of \<^verbatim>\<open>console.log\<close> are left out), and whether a browser is open.
\<close>

datatype console =
    ContainerError message
  | AvailableSections "(string \<times> string) list"
  | NoWrapperHTML
  | NoLinksFound
  | LinkError message
  | FatalError message

record world =
  dirs :: "string list"
  files :: "(string \<times> string) list"
  navigated :: "string list"
  printed :: "console list"
  browser_open :: bool

definition fresh :: world where
  "fresh = \<lparr>dirs = [], files = [], navigated = [], printed = [], browser_open = False\<rparr>"

definition writeFile :: "string \<Rightarrow> string \<Rightarrow> world \<Rightarrow> world" where
  "writeFile path content w = w\<lparr>files := files w @ [(path, content)]\<rparr>"

definition goto :: "string \<Rightarrow> world \<Rightarrow> world" where
  "goto url w = w\<lparr>navigated := navigated w @ [url]\<rparr>"

definition print :: "console \<Rightarrow> world \<Rightarrow> world" where
  "print c w = w\<lparr>printed := printed w @ [c]\<rparr>"

subsection \<open>One link\<close>

text \<open>
  The \<^verbatim>\<open>try\<close> block of the loop body. It ends with the thrown error (\<open>Inl\<close>) or with
  the page data and the two file names; the effects made before a throw stay.
\<close>

definition try_link ::
  "env \<Rightarrow> string \<Rightarrow> string \<Rightarrow> nat \<Rightarrow> link \<Rightarrow> world \<Rightarrow> (message + page_data \<times> string \<times> string) \<times> world" where
  "try_link e outputDir imagesDir linkNum l w =
     (let v = site e linkNum (link_href l);
          w1 = goto (link_href l) w
      in case goto_fails v of Some err \<Rightarrow> (Inl err, w1) | None \<Rightarrow>
        (case scroll_fails v of Some err \<Rightarrow> (Inl err, w1) | None \<Rightarrow>
        (let shot = screenshotFilename linkNum (link_text l);
             screenshotPath = path_join imagesDir shot
         in case screenshot v of Inl err \<Rightarrow> (Inl err, w1) | Inr png \<Rightarrow>
           (let w2 = writeFile screenshotPath png w1
            in case page_document v of Inl err \<Rightarrow> (Inl err, w2) | Inr d \<Rightarrow>
              (let pd = pageData (lib e) d;
                   contentMarkdown = turndown (lib e) (pd_mainContent pd);
                   md = mdFilename linkNum (link_text l);
                   mdPath = path_join outputDir md
               in case md_write_fails v of Some err \<Rightarrow> (Inl err, w2) | None \<Rightarrow>
                    (Inr (pd, md, shot), writeFile mdPath (markdown l pd shot contentMarkdown) w2))))))"

record loop_state =
  indexMd :: string
  results :: "crawl_result list"
  world :: world

text \<open>The loop body: the \<^verbatim>\<open>try\<close> block, then the rest of it or the \<^verbatim>\<open>catch\<close> block.\<close>

definition process_link :: "env \<Rightarrow> string \<Rightarrow> string \<Rightarrow> nat \<Rightarrow> link \<Rightarrow> loop_state \<Rightarrow> loop_state" where
  "process_link e outputDir imagesDir i l st =
     (let linkNum = i + 1
      in case try_link e outputDir imagesDir linkNum l (world st) of
           (Inr (pd, md, shot), w) \<Rightarrow>
             \<lparr>indexMd = indexMd st @ success_entry linkNum l pd md shot,
              results = results st @
                [\<lparr>success = True, result_link = link_text l, result_url = pd_url pd,
                  result_filename = Some md, result_error = None\<rparr>],
              world = w\<rparr>
         | (Inl err, w) \<Rightarrow>
             \<lparr>indexMd = indexMd st @ error_entry linkNum l err,
              results = results st @
                [\<lparr>success = False, result_link = link_text l, result_url = link_href l,
                  result_filename = None, result_error = Some err\<rparr>],
              world = print (LinkError err) w\<rparr>)"

text \<open>\<^verbatim>\<open>for (let i = 0; i < links.length; i++) { const link = links[i]; ... }\<close>\<close>

fun crawl_loop :: "env \<Rightarrow> string \<Rightarrow> string \<Rightarrow> nat \<Rightarrow> link list \<Rightarrow> loop_state \<Rightarrow> loop_state" where
  "crawl_loop e outputDir imagesDir i [] st = st"
| "crawl_loop e outputDir imagesDir i (l # ls) st =
     crawl_loop e outputDir imagesDir (Suc i) ls (process_link e outputDir imagesDir i l st)"

subsection \<open>The script\<close>

text \<open>
  \<^verbatim>\<open>new Date().toISOString().replace(/[:.]/g, '-').split('T')[0]\<close>
\<close>

definition timestamp :: "string \<Rightarrow> string" where
  "timestamp isoString =
     takeWhile (\<lambda>c. c \<noteq> CHR ''T'') (map (\<lambda>c. if c = CHR '':'' \<or> c = CHR ''.'' then CHR ''-'' else c) isoString)"

definition homepage :: string where
  "homepage = ''https://www.ideabrowser.com/''"

text \<open>
  The \<^verbatim>\<open>try\<close> block of the script returns in one of three places: after the
  diagnosis of a missing container, when no link was found, and at its end.
\<close>

datatype finish = ContainerMissing | NoLinks | Completed

text \<open>From the links and the HTML of the container to the end of the \<^verbatim>\<open>try\<close> block.\<close>

definition crawl ::
  "env \<Rightarrow> string \<Rightarrow> string \<Rightarrow> link list \<Rightarrow> string \<Rightarrow> world \<Rightarrow> (message + finish) \<times> loop_state" where
  "crawl e outputDir imagesDir links mainWrapperHTML w =
     (let st0 = \<lparr>indexMd = [], results = [], world = w\<rparr>
      in case (if mainWrapperHTML \<noteq> []
               then (case html_write_fails e of
                       Some err \<Rightarrow> Inl err
                     | None \<Rightarrow> Inr (writeFile (path_join outputDir ''main-wrapper.html'') mainWrapperHTML w))
               else Inr (print NoWrapperHTML w)) of
           Inl err \<Rightarrow> (Inl err, st0)
         | Inr w1 \<Rightarrow>
             if links = [] then (Inr NoLinks, st0\<lparr>world := print NoLinksFound w1\<rparr>)
             else
               (let st = crawl_loop e outputDir imagesDir 0 links
                           \<lparr>indexMd = index_header (index_clock e) (length links), results = [], world = w1\<rparr>
                in case index_write_fails e of Some err \<Rightarrow> (Inl err, st) | None \<Rightarrow>
                  (let w2 = writeFile (path_join outputDir ''INDEX.md'') (indexMd st) (world st)
                   in case results_write_fails e of Some err \<Rightarrow> (Inl err, st\<lparr>world := w2\<rparr>) | None \<Rightarrow>
                     (Inr Completed,
                      st\<lparr>world := writeFile (path_join outputDir ''results.json'')
                                     (stringify (lib e) (results st)) w2\<rparr>))))"

text \<open>The \<^verbatim>\<open>try\<close> block of the script: \<open>Inl\<close> is the error it throws.\<close>

definition main_try :: "env \<Rightarrow> (message + finish) \<times> loop_state" where
  "main_try e =
     (let st0 = \<lparr>indexMd = [], results = [], world = fresh\<rparr>
      in case launch_fails e of Some err \<Rightarrow> (Inl err, st0) | None \<Rightarrow>
        (let w1 = fresh\<lparr>browser_open := True\<rparr>
         in case page_setup_fails e of Some err \<Rightarrow> (Inl err, st0\<lparr>world := w1\<rparr>) | None \<Rightarrow>
           (let outputDir = path_join ''first-section-crawl'' (timestamp (dir_clock e));
                imagesDir = path_join outputDir ''images''
            in case (if imagesDir_exists e then Inr w1
                     else (case mkdir_fails e of
                             Some err \<Rightarrow> Inl err
                           | None \<Rightarrow> Inr (w1\<lparr>dirs := [''first-section-crawl'', outputDir, imagesDir]\<rparr>))) of
                 Inl err \<Rightarrow> (Inl err, st0\<lparr>world := w1\<rparr>)
               | Inr w2 \<Rightarrow>
                   (let w3 = goto homepage w2
                    in case home_goto_fails e of Some err \<Rightarrow> (Inl err, st0\<lparr>world := w3\<rparr>) | None \<Rightarrow>
                      (case home_document e of Inl err \<Rightarrow> (Inl err, st0\<lparr>world := w3\<rparr>) | Inr d \<Rightarrow>
                        (case mainWrapperData (lib e) d of
                           WrapperError msg \<Rightarrow>
                             (let w4 = print (ContainerError msg) w3
                              in case sections_fails e of
                                   Some err \<Rightarrow> (Inl err, st0\<lparr>world := w4\<rparr>)
                                 | None \<Rightarrow>
                                     (Inr ContainerMissing,
                                      st0\<lparr>world := print (AvailableSections (sections d)) w4\<rparr>))
                         | WrapperFound links mainWrapperHTML \<Rightarrow>
                             crawl e outputDir imagesDir links mainWrapperHTML w3))))))"

text \<open>
  \<^verbatim>\<open>
  } catch (error) {
      console.error('... Fatal error:', error.message);
      console.error(error.stack);
  } finally {
      if (browser) { await browser.close(); }
  }
  \<close>
  The promise of the script's function is rejected only when closing the browser fails.
\<close>

datatype settled = Resolved | Rejected message

record outcome =
  ending :: "message + finish"
  final :: loop_state
  promise :: settled

definition main :: "env \<Rightarrow> outcome" where
  "main e =
     (case main_try e of (r, st) \<Rightarrow>
        (let st1 = (case r of Inl err \<Rightarrow> st\<lparr>world := print (FatalError err) (world st)\<rparr> | Inr f \<Rightarrow> st)
         in if browser_open (world st1)
            then (case close_fails e of
                    Some err \<Rightarrow> \<lparr>ending = r, final = st1, promise = Rejected err\<rparr>
                  | None \<Rightarrow>
                      \<lparr>ending = r, final = st1\<lparr>world := (world st1)\<lparr>browser_open := False\<rparr>\<rparr>,
                       promise = Resolved\<rparr>)
            else \<lparr>ending = r, final = st1, promise = Resolved\<rparr>))"

text \<open>
  The script ends with \<^verbatim>\<open>})();\<close>: it never calls \<^verbatim>\<open>process.exit\<close> and sets no exit
  code, so the process ends with status 0 when the promise is resolved, and with the status
  \<open>unhandled\<close> that the runtime gives to an unhandled rejection otherwise.
\<close>

definition exit_status :: "nat \<Rightarrow> outcome \<Rightarrow> nat" where
  "exit_status unhandled out = (case promise out of Resolved \<Rightarrow> 0 | Rejected err \<Rightarrow> unhandled)"

section \<open>Auxiliary notions and sample inputs\<close>

text \<open>Reading a decimal numeral back, to tell file names with different numbers apart.\<close>

definition is_digit :: "char \<Rightarrow> bool" where
  "is_digit c = (48 \<le> code c \<and> code c \<le> 57)"

definition digits_value :: "string \<Rightarrow> nat" where
  "digits_value s = foldl (\<lambda>a c. 10 * a + (code c - 48)) 0 s"

text \<open>A library, a page and a visit for the sample runs.\<close>

definition sample_lib :: engine where
  "sample_lib =
     \<lparr>resolve = (\<lambda>base h. if h = [] then base else h),
      innerHTML = (\<lambda>ks. concat (map textContent ks)),
      turndown = (\<lambda>html. html),
      stringify = (\<lambda>rs. concat (map (\<lambda>r. result_link r @ (if success r then '' ok;'' else '' failed;'')) rs))\<rparr>"

definition two_same_text :: "link list" where
  "two_same_text =
     [\<lparr>link_text = ''Read more'', link_href = ''https://www.ideabrowser.com/a'', link_title = ''Read more''\<rparr>,
      \<lparr>link_text = ''Read more'', link_href = ''https://www.ideabrowser.com/b'', link_title = ''Read more''\<rparr>]"

definition simple_page :: "string \<Rightarrow> string \<Rightarrow> document" where
  "simple_page t u =
     \<lparr>doc_title = t, doc_url = u, html_attrs = [], head_nodes = [], body_attrs = [],
      body_nodes =
        [Element ''nav'' [] [Text ''Home''],
         Element ''main'' [] [Element ''h1'' [] [Text t], Element ''p'' [] [Text ''Some text.'']]]\<rparr>"

definition anchor :: "string \<Rightarrow> string \<Rightarrow> node" where
  "anchor t h = Element ''a'' [(''href'', h)] [Text t]"

text \<open>The scenario of the specification: three links A, B and C, and the fetch of B times out.\<close>

definition abc_page :: document where
  "abc_page =
     \<lparr>doc_title = ''Idea Browser'', doc_url = homepage, html_attrs = [], head_nodes = [], body_attrs = [],
      body_nodes =
        [Element ''div'' [(''id'', ''main-wrapper''), (''class'', ''wrap'')]
           [anchor ''A'' ''https://www.ideabrowser.com/a'',
            anchor ''B'' ''https://www.ideabrowser.com/b'',
            anchor ''C'' ''https://www.ideabrowser.com/c'']]\<rparr>"

definition abc :: "link list" where
  "abc =
     [\<lparr>link_text = ''A'', link_href = ''https://www.ideabrowser.com/a'', link_title = ''A''\<rparr>,
      \<lparr>link_text = ''B'', link_href = ''https://www.ideabrowser.com/b'', link_title = ''B''\<rparr>,
      \<lparr>link_text = ''C'', link_href = ''https://www.ideabrowser.com/c'', link_title = ''C''\<rparr>]"

definition good_visit :: "string \<Rightarrow> visit" where
  "good_visit u =
     \<lparr>goto_fails = None, scroll_fails = None, screenshot = Inr ''PNG'',
      page_document = Inr (simple_page ''Page'' u), md_write_fails = None\<rparr>"

definition scenario :: env where
  "scenario =
     \<lparr>lib = sample_lib, launch_fails = None, page_setup_fails = None,
      dir_clock = ''2025-07-14T09:30:00.000Z'', imagesDir_exists = False, mkdir_fails = None,
      home_goto_fails = None, home_document = Inr abc_page, sections_fails = None,
      html_write_fails = None, index_clock = ''2025-07-14T09:30:05.000Z'',
      site = (\<lambda>n u. if u = ''https://www.ideabrowser.com/b''
                     then (good_visit u)\<lparr>goto_fails := Some ''Navigation timeout of 30000 ms exceeded''\<rparr>
                     else good_visit u),
      index_write_fails = None, results_write_fails = None, close_fails = None\<rparr>"

text \<open>The same run started five seconds later on the clock that dates the index.\<close>

definition scenario_later :: env where
  "scenario_later = scenario\<lparr>index_clock := ''2025-07-14T09:30:10.000Z''\<rparr>"

text \<open>The same site when the page of B loads and is captured, and its extraction fails.\<close>

definition captured_then_failed :: env where
  "captured_then_failed =
     scenario\<lparr>site := (\<lambda>n u. if u = ''https://www.ideabrowser.com/b''
                            then (good_visit u)\<lparr>page_document := Inl ''Execution context was destroyed''\<rparr>
                            else good_visit u)\<rparr>"

text \<open>The same run when the browser cannot be launched.\<close>

definition no_browser :: env where
  "no_browser = scenario\<lparr>launch_fails := Some ''Failed to launch the browser process''\<rparr>"

text \<open>A homepage without the container, and the run on it.\<close>

definition bare_page :: document where
  "bare_page =
     \<lparr>doc_title = ''Idea Browser'', doc_url = homepage, html_attrs = [], head_nodes = [], body_attrs = [],
      body_nodes =
        [Element ''div'' [(''id'', ''first-section'')]
           [anchor ''A'' ''https://www.ideabrowser.com/a'']]\<rparr>"

definition bare :: env where
  "bare = scenario\<lparr>home_document := Inr bare_page\<rparr>"

text \<open>A container in which two anchors point to the same page.\<close>

definition twice_page :: document where
  "twice_page =
     \<lparr>doc_title = ''Idea Browser'', doc_url = homepage, html_attrs = [], head_nodes = [], body_attrs = [],
      body_nodes =
        [Element ''div'' [(''id'', ''main-wrapper'')]
           [anchor ''Idea of the day'' ''https://www.ideabrowser.com/idea'',
            Element ''p'' [] [anchor ''Read more'' ''https://www.ideabrowser.com/idea'']]]\<rparr>"

text \<open>A page whose \<^verbatim>\<open>article\<close> comes before its \<^verbatim>\<open>main\<close>.\<close>

definition article_first :: document where
  "article_first =
     \<lparr>doc_title = ''Page'', doc_url = ''https://www.ideabrowser.com/a'', html_attrs = [], head_nodes = [],
      body_attrs = [],
      body_nodes =
        [Element ''article'' [] [Text ''teaser''],
         Element ''main'' [] [Text ''the content'']]\<rparr>"

text \<open>
  Choosing by precedence, as the sibling script \<^verbatim>\<open>screenshot-practical-deep-dive.js\<close>
  does:
  \<^verbatim>\<open>
  for (const selector of mainSelectors) {
      const el = document.querySelector(selector);
      if (el) { mainContent = { selector, ... }; break; }
  }
  \<close>
\<close>

fun first_by_precedence :: "document \<Rightarrow> selector \<Rightarrow> node option" where
  "first_by_precedence d [] = None"
| "first_by_precedence d (selector # rest) =
     (case doc_querySelector d [selector] of
        Some el \<Rightarrow> Some el
      | None \<Rightarrow> first_by_precedence d rest)"


text \<open>
  How the visit of link number \<open>linkNum\<close> ends, what it adds to the index and what it
  adds to the results: the loop body read off at a fresh world, since neither depends on
  the files written so far or on the directories.
\<close>

definition attempt :: "env \<Rightarrow> nat \<Rightarrow> link \<Rightarrow> message + page_data \<times> string \<times> string" where
  "attempt e linkNum l = fst (try_link e [] [] linkNum l fresh)"

definition index_entry :: "env \<Rightarrow> nat \<Rightarrow> link \<Rightarrow> string" where
  "index_entry e linkNum l =
     (case attempt e linkNum l of
        Inr (pd, md, shot) \<Rightarrow> success_entry linkNum l pd md shot
      | Inl err \<Rightarrow> error_entry linkNum l err)"

definition result_of :: "env \<Rightarrow> nat \<Rightarrow> link \<Rightarrow> crawl_result" where
  "result_of e linkNum l =
     (case attempt e linkNum l of
        Inr (pd, md, shot) \<Rightarrow>
          \<lparr>success = True, result_link = link_text l, result_url = pd_url pd,
           result_filename = Some md, result_error = None\<rparr>
      | Inl err \<Rightarrow>
          \<lparr>success = False, result_link = link_text l, result_url = link_href l,
           result_filename = None, result_error = Some err\<rparr>)"

text \<open>What the index shows of the way a visit ended.\<close>

definition index_view :: "message + page_data \<times> string \<times> string \<Rightarrow> message + string \<times> string \<times> string" where
  "index_view r =
     (case r of
        Inl err \<Rightarrow> Inl err
      | Inr (pd, md, shot) \<Rightarrow> Inr (pd_url pd, pd_title pd, pd_metaDescription pd))"

text \<open>The scenario on another day, with other images, read at the same time of the index clock.\<close>

definition scenario_rerun :: env where
  "scenario_rerun =
     scenario\<lparr>dir_clock := ''2025-07-15T00:00:00.000Z'',
              site := (\<lambda>n u. (site scenario n u)\<lparr>screenshot := Inr ''PNG2''\<rparr>)\<rparr>"

text \<open>
  The run reaches the homepage when the browser was launched, the page prepared and the
  output directory is there; the homepage is loaded when, further, the navigation to it and
  the evaluation of the extraction script in it did not fail.
\<close>

definition reaches_homepage :: "env \<Rightarrow> bool" where
  "reaches_homepage e =
     (launch_fails e = None \<and> page_setup_fails e = None \<and> (imagesDir_exists e \<or> mkdir_fails e = None))"

definition homepage_loaded :: "env \<Rightarrow> document \<Rightarrow> bool" where
  "homepage_loaded e d = (reaches_homepage e \<and> home_goto_fails e = None \<and> home_document e = Inr d)"

text \<open>The scenario when the homepage cannot be reached.\<close>

definition homepage_down :: env where
  "homepage_down = scenario\<lparr>home_goto_fails := Some ''net::ERR_NAME_NOT_RESOLVED''\<rparr>"

text \<open>The links that the extractor returns for the page with the two anchors.\<close>

definition twice_links :: "link list" where
  "twice_links =
     [\<lparr>link_text = ''Idea of the day'', link_href = ''https://www.ideabrowser.com/idea'',
       link_title = ''Idea of the day''\<rparr>,
      \<lparr>link_text = ''Read more'', link_href = ''https://www.ideabrowser.com/idea'',
       link_title = ''Read more''\<rparr>]"

text \<open>A page without any of the content containers.\<close>

definition plain_page :: document where
  "plain_page =
     \<lparr>doc_title = ''Page'', doc_url = ''https://www.ideabrowser.com/c'', html_attrs = [], head_nodes = [],
      body_attrs = [],
      body_nodes = [Element ''nav'' [] [Text ''Home''], Element ''p'' [] [Text ''Hello'']]\<rparr>"

text \<open>The output directory of a run, and the world in which the homepage has just been requested.\<close>

definition outputDir_of :: "env \<Rightarrow> string" where
  "outputDir_of e = path_join ''first-section-crawl'' (timestamp (dir_clock e))"

definition world_at_homepage :: "env \<Rightarrow> world" where
  "world_at_homepage e =
     goto homepage
       (if imagesDir_exists e then fresh\<lparr>browser_open := True\<rparr>
        else fresh\<lparr>browser_open := True,
                   dirs := [''first-section-crawl'', outputDir_of e, path_join (outputDir_of e) ''images'']\<rparr>)"


section \<open>The sibling script that sets the exit status\<close>

text \<open>
  \<^verbatim>\<open>screenshot-enhanced.js\<close> has the same shape, with a handler that rethrows and a
  handler on the promise:
  \<^verbatim>\<open>
  (async () => {
      let browser;
      try { ... } catch (error) {
          console.error('... An error occurred:', error.message);
          throw error;
      } finally {
          if (browser) { await browser.close(); }
      }
  })().catch(error => {
      console.error('... Script failed:', error);
      process.exit(1);
  });
  \<close>
  Its \<^verbatim>\<open>try\<close> block makes the archive directory, launches the browser and captures the
  page; \<open>capture_fails\<close> is the first error of the awaited calls after the launch, those
  inside the two inner \<^verbatim>\<open>try\<close> blocks apart, whose errors are swallowed there.
\<close>

record enhanced_env =
  archive_mkdir_fails :: "message option"
  chrome_launch_fails :: "message option"
  capture_fails :: "message option"
  chrome_close_fails :: "message option"

definition enhanced_promise :: "enhanced_env \<Rightarrow> settled" where
  "enhanced_promise e =
     (case archive_mkdir_fails e of Some err \<Rightarrow> Rejected err | None \<Rightarrow>
       (case chrome_launch_fails e of Some err \<Rightarrow> Rejected err | None \<Rightarrow>
         (case chrome_close_fails e of Some err \<Rightarrow> Rejected err | None \<Rightarrow>
           (case capture_fails e of Some err \<Rightarrow> Rejected err | None \<Rightarrow> Resolved))))"

definition enhanced_exit_status :: "enhanced_env \<Rightarrow> nat" where
  "enhanced_exit_status e = (case enhanced_promise e of Resolved \<Rightarrow> 0 | Rejected err \<Rightarrow> 1)"

section \<open>File names\<close>

lemma code_digit_char: "d < 10 \<Longrightarrow> code (digit_char d) = 48 + d"
  by (simp add: code_def digit_char_def)

lemma is_digit_digit_char: "d < 10 \<Longrightarrow> is_digit (digit_char d)"
  by (simp add: is_digit_def code_digit_char)

lemma String_digits: "list_all is_digit (String n)"
proof (induction n rule: String.induct)
  case (1 n)
  show ?case
  proof (cases "n < 10")
    case True
    then show ?thesis by (subst String.simps) (simp add: is_digit_digit_char)
  next
    case False
    with 1 have "list_all is_digit (String (n div 10))" by simp
    moreover have "is_digit (digit_char (n mod 10))" by (simp add: is_digit_digit_char)
    ultimately show ?thesis using False by (subst String.simps) simp
  qed
qed

lemma digits_value_snoc: "digits_value (s @ [c]) = 10 * digits_value s + (code c - 48)"
  by (simp add: digits_value_def)

lemma digits_value_String: "digits_value (String n) = n"
proof (induction n rule: String.induct)
  case (1 n)
  show ?case
  proof (cases "n < 10")
    case True
    then show ?thesis by (subst String.simps) (simp add: digits_value_def code_digit_char)
  next
    case False
    with 1 have ih: "digits_value (String (n div 10)) = n div 10" by simp
    have "String n = String (n div 10) @ [digit_char (n mod 10)]"
      using False by (subst String.simps) simp
    then show ?thesis by (simp add: digits_value_snoc ih code_digit_char)
  qed
qed

lemma digits_value_zeros: "digits_value (replicate k (CHR ''0'') @ s) = digits_value s"
proof -
  have "foldl (\<lambda>a c. 10 * a + (code c - 48)) 0 (replicate k (CHR ''0'')) = 0"
    by (induction k) (simp_all add: code_def)
  then show ?thesis by (simp add: digits_value_def)
qed

lemma digits_value_padStart2: "digits_value (padStart2 (String n)) = n"
  by (simp add: padStart2_def digits_value_zeros digits_value_String)

lemma padStart2_digits: "list_all is_digit (padStart2 (String n))"
  using String_digits [of n] by (auto simp: padStart2_def is_digit_def code_def list_all_iff)

text \<open>The digits before the first hyphen of a file name are the padded number.\<close>

lemma takeWhile_numbered: "takeWhile is_digit (numbered n t @ ext) = padStart2 (String n)"
proof -
  have "\<not> is_digit (CHR ''-'')" by (simp add: is_digit_def code_def)
  moreover have "\<forall>c \<in> set (padStart2 (String n)). is_digit c"
    using padStart2_digits [of n] by (simp add: list_all_iff)
  ultimately show ?thesis
    by (simp add: numbered_def takeWhile_append2 [where ys = "CHR ''-'' # _"])
qed

lemma numbered_inj:
  assumes "numbered n t @ e = numbered m u @ f"
  shows "n = m"
proof -
  from assms have "takeWhile is_digit (numbered n t @ e) = takeWhile is_digit (numbered m u @ f)"
    by simp
  then have "padStart2 (String n) = padStart2 (String m)"
    by (simp only: takeWhile_numbered)
  then have "digits_value (padStart2 (String n)) = digits_value (padStart2 (String m))"
    by simp
  then show "n = m" by (simp only: digits_value_padStart2)
qed

text \<open>
  C10. The content documents of two different links of a run have different file names,
  and so have their screenshots, whatever the link texts are: the name of the link at
  position \<open>i\<close> starts with its visitation number \<open>i + 1\<close>, two digits at least, and
  a hyphen.
\<close>

theorem filenames_pairwise_distinct:
  assumes "i < length links" and "j < length links" and "i \<noteq> j"
  shows "mdFilename (i + 1) (link_text (links ! i)) \<noteq> mdFilename (j + 1) (link_text (links ! j))
       \<and> screenshotFilename (i + 1) (link_text (links ! i))
           \<noteq> screenshotFilename (j + 1) (link_text (links ! j))
       \<and> mdFilename (i + 1) (link_text (links ! i))
           = padStart2 (String (i + 1)) @ ''-'' @ safeFilename (link_text (links ! i)) @ ''.md''
       \<and> screenshotFilename (i + 1) (link_text (links ! i))
           = padStart2 (String (i + 1)) @ ''-'' @ safeFilename (link_text (links ! i)) @ ''.png''"
proof -
  have "i + 1 \<noteq> j + 1" using assms(3) by simp
  then have ne: "numbered (i + 1) t @ e \<noteq> numbered (j + 1) u @ f" for t u e f
    using numbered_inj by blast
  have "mdFilename (i + 1) (link_text (links ! i)) \<noteq> mdFilename (j + 1) (link_text (links ! j))"
    unfolding mdFilename_def by (rule ne)
  moreover have "screenshotFilename (i + 1) (link_text (links ! i))
                   \<noteq> screenshotFilename (j + 1) (link_text (links ! j))"
    unfolding screenshotFilename_def by (rule ne)
  moreover have "mdFilename (i + 1) (link_text (links ! i))
                   = padStart2 (String (i + 1)) @ ''-'' @ safeFilename (link_text (links ! i)) @ ''.md''"
    by (simp add: mdFilename_def numbered_def)
  moreover have "screenshotFilename (i + 1) (link_text (links ! i))
                   = padStart2 (String (i + 1)) @ ''-'' @ safeFilename (link_text (links ! i)) @ ''.png''"
    by (simp add: screenshotFilename_def numbered_def)
  ultimately show ?thesis by blast
qed

theorem filenames_pairwise_distinct_witness:
  "(0::nat) < length two_same_text \<and> (1::nat) < length two_same_text \<and> (0::nat) \<noteq> 1
   \<and> link_text (two_same_text ! 0) = link_text (two_same_text ! 1)
   \<and> mdFilename (0 + 1) (link_text (two_same_text ! 0)) = ''01-read-more.md''
   \<and> mdFilename (1 + 1) (link_text (two_same_text ! 1)) = ''02-read-more.md''
   \<and> mdFilename (0 + 1) (link_text (two_same_text ! 0)) \<noteq> mdFilename (1 + 1) (link_text (two_same_text ! 1))
   \<and> screenshotFilename (0 + 1) (link_text (two_same_text ! 0))
       \<noteq> screenshotFilename (1 + 1) (link_text (two_same_text ! 1))"
proof -
  have h: "(0::nat) < length two_same_text" "(1::nat) < length two_same_text" "(0::nat) \<noteq> 1"
    by (simp_all add: two_same_text_def)
  have a: "mdFilename (0 + 1) (link_text (two_same_text ! 0)) = ''01-read-more.md''"
    by code_simp
  have b: "mdFilename (1 + 1) (link_text (two_same_text ! 1)) = ''02-read-more.md''"
    by code_simp
  have c: "link_text (two_same_text ! 0) = link_text (two_same_text ! 1)"
    by (simp add: two_same_text_def)
  from filenames_pairwise_distinct [OF h] h a b c show ?thesis by blast
qed

section \<open>The loop, link by link\<close>

text \<open>How a visit ends does not depend on the directories or on the world it starts in.\<close>

lemma fst_try_link: "fst (try_link e od imd n l w) = attempt e n l"
  by (simp add: try_link_def attempt_def Let_def split: option.splits sum.splits)

lemma process_link_index:
  "indexMd (process_link e od imd i l st) = indexMd st @ index_entry e (i + 1) l"
proof -
  obtain r w where tl: "try_link e od imd (i + 1) l (world st) = (r, w)"
    by (cases "try_link e od imd (i + 1) l (world st)")
  then have "attempt e (i + 1) l = r"
    using fst_try_link [of e od imd "i + 1" l "world st"] by simp
  then show ?thesis using tl
    by (auto simp: process_link_def index_entry_def split: sum.splits prod.splits)
qed

lemma process_link_results:
  "results (process_link e od imd i l st) = results st @ [result_of e (i + 1) l]"
proof -
  obtain r w where tl: "try_link e od imd (i + 1) l (world st) = (r, w)"
    by (cases "try_link e od imd (i + 1) l (world st)")
  then have "attempt e (i + 1) l = r"
    using fst_try_link [of e od imd "i + 1" l "world st"] by simp
  then show ?thesis using tl
    by (auto simp: process_link_def result_of_def split: sum.splits prod.splits)
qed

lemma navigated_try_link:
  "navigated (snd (try_link e od imd n l w)) = navigated w @ [link_href l]"
  by (simp add: try_link_def Let_def goto_def writeFile_def split: option.splits sum.splits)

lemma process_link_navigated:
  "navigated (world (process_link e od imd i l st)) = navigated (world st) @ [link_href l]"
proof -
  obtain r w where tl: "try_link e od imd (i + 1) l (world st) = (r, w)"
    by (cases "try_link e od imd (i + 1) l (world st)")
  then have "navigated w = navigated (world st) @ [link_href l]"
    using navigated_try_link [of e od imd "i + 1" l "world st"] by simp
  then show ?thesis using tl
    by (auto simp: process_link_def print_def split: sum.splits prod.splits)
qed

text \<open>The loop adds one entry and one result for each link, in the order of the list.\<close>

lemma crawl_loop_index:
  "indexMd (crawl_loop e od imd i ls st)
     = indexMd st @ concat (map (\<lambda>(k, l). index_entry e (k + 1) l) (enumerate i ls))"
  by (induction ls arbitrary: i st) (simp_all add: process_link_index)

lemma crawl_loop_results:
  "results (crawl_loop e od imd i ls st)
     = results st @ map (\<lambda>(k, l). result_of e (k + 1) l) (enumerate i ls)"
  by (induction ls arbitrary: i st) (simp_all add: process_link_results)

lemma crawl_loop_navigated:
  "navigated (world (crawl_loop e od imd i ls st)) = navigated (world st) @ map link_href ls"
  by (induction ls arbitrary: i st) (simp_all add: process_link_navigated)

lemma crawl_loop_index_positions:
  "indexMd (crawl_loop e od imd 0 links st)
     = indexMd st @ concat (map (\<lambda>k. index_entry e (k + 1) (links ! k)) [0..<length links])"
proof -
  have "map (\<lambda>(k, l). index_entry e (k + 1) l) (enumerate 0 links)
          = map (\<lambda>k. index_entry e (k + 1) (links ! k)) [0..<length links]"
    by (rule nth_equalityI) (simp_all add: nth_enumerate_eq)
  then show ?thesis by (simp only: crawl_loop_index)
qed

text \<open>The file names in an entry are those of the link's number and text.\<close>

lemma attempt_names:
  "attempt e n l = Inr (pd, md, shot) \<Longrightarrow>
     md = mdFilename n (link_text l) \<and> shot = screenshotFilename n (link_text l)"
  by (auto simp: attempt_def try_link_def Let_def split: option.splits sum.splits)

lemma index_entry_view:
  "index_entry e n l =
     (case index_view (attempt e n l) of
        Inl err \<Rightarrow> error_entry n l err
      | Inr (u, t, m) \<Rightarrow>
          success_entry n l
            \<lparr>pd_title = t, pd_url = u, pd_h1 = [], pd_metaDescription = m, pd_bodyHTML = [],
             pd_mainContent = [], pd_headings = [], pd_paragraphs = []\<rparr>
            (mdFilename n (link_text l)) (screenshotFilename n (link_text l)))"
proof (cases "attempt e n l")
  case (Inl err)
  then show ?thesis by (simp add: index_entry_def index_view_def)
next
  case (Inr x)
  obtain pd md shot where x: "x = (pd, md, shot)" by (cases x)
  with Inr attempt_names [of e n l pd md shot] show ?thesis
    by (simp add: index_entry_def index_view_def success_entry_def)
qed




section \<open>The run, step by step\<close>

lemma browser_open_try_link: "browser_open (snd (try_link e od imd n l w)) = browser_open w"
  by (simp add: try_link_def Let_def goto_def writeFile_def split: option.splits sum.splits)

lemma browser_open_process_link:
  "browser_open (world (process_link e od imd i l st)) = browser_open (world st)"
proof -
  obtain r w where tl: "try_link e od imd (i + 1) l (world st) = (r, w)"
    by (cases "try_link e od imd (i + 1) l (world st)")
  then have "browser_open w = browser_open (world st)"
    using browser_open_try_link [of e od imd "i + 1" l "world st"] by simp
  then show ?thesis using tl
    by (auto simp: process_link_def print_def split: sum.splits prod.splits)
qed

lemma browser_open_crawl_loop:
  "browser_open (world (crawl_loop e od imd i ls st)) = browser_open (world st)"
  by (induction ls arbitrary: i st) (simp_all add: browser_open_process_link)

lemma browser_open_crawl:
  "browser_open (world (snd (crawl e od imd links html w))) = browser_open w"
  by (simp add: crawl_def Let_def browser_open_crawl_loop writeFile_def print_def
      split: option.splits sum.splits)

lemma browser_open_main_try:
  "browser_open (world (snd (main_try e))) = (launch_fails e = None)"
  by (simp add: main_try_def Let_def browser_open_crawl fresh_def goto_def print_def
      split: option.splits sum.splits wrapper_data.splits)

lemma promise_main:
  "promise (main e) =
     (case launch_fails e of
        Some err \<Rightarrow> Resolved
      | None \<Rightarrow> (case close_fails e of None \<Rightarrow> Resolved | Some err \<Rightarrow> Rejected err))"
proof -
  obtain r st where m: "main_try e = (r, st)" by (cases "main_try e")
  then have "browser_open (world st) = (launch_fails e = None)"
    using browser_open_main_try [of e] by simp
  then show ?thesis using m
    by (auto simp: main_def Let_def print_def split: option.splits sum.splits)
qed

lemma main_launch_fails:
  "launch_fails e = Some err \<Longrightarrow>
     main e = \<lparr>ending = Inl err,
               final = \<lparr>indexMd = [], results = [], world = fresh\<lparr>printed := [FatalError err]\<rparr>\<rparr>,
               promise = Resolved\<rparr>"
  by (simp add: main_def main_try_def Let_def print_def fresh_def)

lemma main_try_home_goto_fails:
  "reaches_homepage e \<Longrightarrow> home_goto_fails e = Some err \<Longrightarrow>
     fst (main_try e) = Inl err \<and> results (snd (main_try e)) = [] \<and> indexMd (snd (main_try e)) = []
     \<and> files (world (snd (main_try e))) = [] \<and> navigated (world (snd (main_try e))) = [homepage]
     \<and> printed (world (snd (main_try e))) = []"
  by (auto simp: main_try_def reaches_homepage_def Let_def fresh_def goto_def split: option.splits)

lemma main_try_container_missing:
  "homepage_loaded e d \<Longrightarrow> mainWrapperData (lib e) d = WrapperError msg \<Longrightarrow> sections_fails e = None \<Longrightarrow>
     fst (main_try e) = Inr ContainerMissing \<and> results (snd (main_try e)) = [] \<and> indexMd (snd (main_try e)) = []
     \<and> files (world (snd (main_try e))) = [] \<and> navigated (world (snd (main_try e))) = [homepage]
     \<and> printed (world (snd (main_try e))) = [ContainerError msg, AvailableSections (sections d)]"
  by (auto simp: main_try_def homepage_loaded_def reaches_homepage_def Let_def fresh_def goto_def print_def
      split: option.splits)

lemma main_fields:
  "ending (main e) = fst (main_try e)"
  "results (final (main e)) = results (snd (main_try e))"
  "indexMd (final (main e)) = indexMd (snd (main_try e))"
  "files (world (final (main e))) = files (world (snd (main_try e)))"
  "navigated (world (final (main e))) = navigated (world (snd (main_try e)))"
  "printed (world (final (main e)))
     = printed (world (snd (main_try e))) @ (case fst (main_try e) of Inl err \<Rightarrow> [FatalError err] | Inr f \<Rightarrow> [])"
  by (simp_all add: main_def Let_def print_def split: prod.splits sum.splits option.splits)




lemma main_try_crawl:
  "homepage_loaded e d \<Longrightarrow> mainWrapperData (lib e) d = WrapperFound links html \<Longrightarrow>
     main_try e = crawl e (outputDir_of e) (path_join (outputDir_of e) ''images'') links html (world_at_homepage e)"
  by (auto simp: main_try_def homepage_loaded_def reaches_homepage_def Let_def outputDir_of_def
        world_at_homepage_def split: option.splits)

text \<open>When the HTML of the container is written, or there is none to write, the loop runs.\<close>

lemma crawl_reaches_loop:
  assumes "html = [] \<or> html_write_fails e = None"
  shows "results (snd (crawl e od imd links html w)) = map (\<lambda>(k, l). result_of e (k + 1) l) (enumerate 0 links)"
    and "navigated (world (snd (crawl e od imd links html w))) = navigated w @ map link_href links"
    and "links \<noteq> [] \<Longrightarrow> indexMd (snd (crawl e od imd links html w))
           = index_header (index_clock e) (length links)
             @ concat (map (\<lambda>k. index_entry e (k + 1) (links ! k)) [0..<length links])"
    and "links \<noteq> [] \<Longrightarrow> index_write_fails e = None \<Longrightarrow>
           (path_join od ''INDEX.md'', indexMd (snd (crawl e od imd links html w)))
             \<in> set (files (world (snd (crawl e od imd links html w))))"
  using assms
  by (auto simp: crawl_def Let_def crawl_loop_results crawl_loop_navigated crawl_loop_index_positions
        writeFile_def print_def split: option.splits simp del: upt.simps)

lemma main_crawled:
  assumes "homepage_loaded e d" and "mainWrapperData (lib e) d = WrapperFound links html"
    and "html = [] \<or> html_write_fails e = None"
  shows "results (final (main e)) = map (\<lambda>(k, l). result_of e (k + 1) l) (enumerate 0 links)"
    and "navigated (world (final (main e))) = homepage # map link_href links"
    and "links \<noteq> [] \<Longrightarrow> index_write_fails e = None \<Longrightarrow>
           (path_join (outputDir_of e) ''INDEX.md'',
            index_header (index_clock e) (length links)
              @ concat (map (\<lambda>k. index_entry e (k + 1) (links ! k)) [0..<length links]))
             \<in> set (files (world (final (main e))))"
proof -
  let ?c = "crawl e (outputDir_of e) (path_join (outputDir_of e) ''images'') links html (world_at_homepage e)"
  have m: "main_try e = ?c" using assms(1,2) by (rule main_try_crawl)
  show "results (final (main e)) = map (\<lambda>(k, l). result_of e (k + 1) l) (enumerate 0 links)"
    by (simp only: main_fields m crawl_reaches_loop(1) [OF assms(3)])
  have "navigated (world_at_homepage e) = [homepage]"
    by (simp add: world_at_homepage_def goto_def fresh_def)
  then show "navigated (world (final (main e))) = homepage # map link_href links"
    by (simp add: main_fields m crawl_reaches_loop(2) [OF assms(3)])
  show "(path_join (outputDir_of e) ''INDEX.md'',
            index_header (index_clock e) (length links)
              @ concat (map (\<lambda>k. index_entry e (k + 1) (links ! k)) [0..<length links]))
             \<in> set (files (world (final (main e))))"
    if "links \<noteq> []" and "index_write_fails e = None"
    using crawl_reaches_loop(4) [OF assms(3) that, of "outputDir_of e" "path_join (outputDir_of e) ''images''" "world_at_homepage e"]
    by (simp only: main_fields m crawl_reaches_loop(3) [OF assms(3) that(1)])
qed

text \<open>The scenario, as far as the loop.\<close>

lemma scenario_extracted: "mainWrapperData (lib scenario) abc_page = WrapperFound abc ''ABC''"
  by code_simp

lemma scenario_loaded:
  "homepage_loaded scenario abc_page" "html_write_fails scenario = None" "index_write_fails scenario = None"
  by (simp_all add: scenario_def homepage_loaded_def reaches_homepage_def)

lemma scenario_timeout:
  "fst (try_link scenario ''out'' ''out/images'' (1 + 1) (abc ! 1) fresh)
     = Inl ''Navigation timeout of 30000 ms exceeded''"
  by code_simp

text \<open>The sibling script ends with status 1 exactly when one of its steps fails.\<close>

lemma enhanced_exit_status_iff:
  "enhanced_exit_status e =
     (if archive_mkdir_fails e = None \<and> chrome_launch_fails e = None \<and> capture_fails e = None
         \<and> chrome_close_fails e = None
      then 0 else 1)"
  by (simp add: enhanced_exit_status_def enhanced_promise_def split: option.splits)



lemma bare_missing: "mainWrapperData (lib bare) bare_page = WrapperError ''Could not find #main-wrapper element''"
  by code_simp

lemma less_3: "k < (3::nat) \<Longrightarrow> k = 0 \<or> k = 1 \<or> k = 2"
  by arith

lemma twice_extracted:
  "mainWrapperData sample_lib twice_page = WrapperFound twice_links ''Idea of the dayRead more''"
  by code_simp

section \<open>One result for each link\<close>



section \<open>A missing container\<close>

lemma matches_id: "matches [[Id i]] n = (getAttribute n ''id'' = Some i)"
  by (cases n) (simp_all add: matches_def)

text \<open>
  C2, as the code has it. On a page in which no element has the id \<^verbatim>\<open>main-wrapper\<close>,
  the extraction script does not throw: it returns the object that carries the message that
  the container was not found, and no list of links. The caller does not treat this as a
  fatal error, and it does not go on either: it prints the message and the sections
  available on the page and returns, so the run ends there in the ordinary way, nothing
  crawled, no file written, the promise of the script resolved.
\<close>

theorem missing_container_signalled_not_thrown:
  assumes "\<forall>n \<in> set (subtree (document_root d)). getAttribute n ''id'' \<noteq> Some ''main-wrapper''"
  shows "mainWrapperData eng d = WrapperError ''Could not find #main-wrapper element''
       \<and> (\<forall>e. lib e = eng \<and> homepage_loaded e d \<and> sections_fails e = None \<longrightarrow>
             ending (main e) = Inr ContainerMissing
           \<and> printed (world (final (main e)))
               = [ContainerError ''Could not find #main-wrapper element'', AvailableSections (sections d)]
           \<and> results (final (main e)) = []
           \<and> files (world (final (main e))) = []
           \<and> navigated (world (final (main e))) = [homepage]
           \<and> (close_fails e = None \<longrightarrow> promise (main e) = Resolved))"
proof -
  have "doc_querySelector d [[Id ''main-wrapper'']] = None"
    using assms by (simp add: doc_querySelector_def find_None_iff matches_id)
  then have a: "mainWrapperData eng d = WrapperError ''Could not find #main-wrapper element''"
    by (simp add: mainWrapperData_def)
  have b: "ending (main e) = Inr ContainerMissing
           \<and> printed (world (final (main e)))
               = [ContainerError ''Could not find #main-wrapper element'', AvailableSections (sections d)]
           \<and> results (final (main e)) = []
           \<and> files (world (final (main e))) = []
           \<and> navigated (world (final (main e))) = [homepage]
           \<and> (close_fails e = None \<longrightarrow> promise (main e) = Resolved)"
    if "lib e = eng \<and> homepage_loaded e d \<and> sections_fails e = None" for e
    using that a main_try_container_missing [of e d "''Could not find #main-wrapper element''"]
    by (simp add: main_fields promise_main split: option.splits)
  from a b show ?thesis by blast
qed

theorem missing_container_signalled_not_thrown_witness:
  "lib bare = sample_lib \<and> homepage_loaded bare bare_page \<and> sections_fails bare = None
   \<and> close_fails bare = None
   \<and> mainWrapperData sample_lib bare_page = WrapperError ''Could not find #main-wrapper element''
   \<and> ending (main bare) = Inr ContainerMissing
   \<and> printed (world (final (main bare)))
       = [ContainerError ''Could not find #main-wrapper element'', AvailableSections (sections bare_page)]
   \<and> sections bare_page = [(''first-section'', ''DIV'')]
   \<and> files (world (final (main bare))) = []
   \<and> promise (main bare) = Resolved"
proof -
  have h: "\<forall>n \<in> set (subtree (document_root bare_page)). getAttribute n ''id'' \<noteq> Some ''main-wrapper''"
    by (simp add: bare_page_def document_root_def document_body_def anchor_def)
  have b: "lib bare = sample_lib \<and> homepage_loaded bare bare_page \<and> sections_fails bare = None"
    "close_fails bare = None"
    by (simp_all add: bare_def scenario_def homepage_loaded_def reaches_homepage_def)
  have s: "sections bare_page = [(''first-section'', ''DIV'')]"
    by code_simp
  from missing_container_signalled_not_thrown [OF h, of sample_lib] b s
  show ?thesis by (simp (no_asm_simp))
qed

text \<open>
  C2, as the claim states it, fails: for the homepage without the container the object
  returned holds the message and no list of links, and the caller does not continue after
  the diagnosis: the run ends there, nothing crawled and no file written.
\<close>

theorem missing_container_ends_run:
  "mainWrapperData (lib bare) bare_page = WrapperError ''Could not find #main-wrapper element''
   \<and> ending (main bare) = Inr ContainerMissing
   \<and> results (final (main bare)) = []
   \<and> files (world (final (main bare))) = []
   \<and> navigated (world (final (main bare))) = [homepage]"
  by code_simp

section \<open>The extracted links\<close>

text \<open>
  C3, as the code has it. The links that the extractor returns are those of the anchors with
  an \<^verbatim>\<open>href\<close> attribute below the container, in document order, one link for every
  such anchor whose trimmed text and whose resolved URL are not empty; every link returned
  has a non-empty text and a non-empty URL. Nothing is removed for having the URL of an
  earlier link.
\<close>

theorem extracted_links_in_document_order:
  assumes "mainWrapperData eng d = WrapperFound links html"
  shows "(\<exists>w. doc_querySelector d [[Id ''main-wrapper'']] = Some w
            \<and> links = map (anchor_link eng d)
                (filter (\<lambda>a. link_href (anchor_link eng d a) \<noteq> [] \<and> link_text (anchor_link eng d a) \<noteq> [])
                   (filter (matches [[Tag ''a'', HasAttr ''href'']]) (descendants w))))
       \<and> (\<forall>l \<in> set links. link_text l \<noteq> [] \<and> link_href l \<noteq> [])"
proof -
  from assms obtain w where w: "doc_querySelector d [[Id ''main-wrapper'']] = Some w"
    and l: "links = extract_links eng d w"
    by (auto simp: mainWrapperData_def split: option.splits)
  have "links = map (anchor_link eng d)
                (filter (\<lambda>a. link_href (anchor_link eng d a) \<noteq> [] \<and> link_text (anchor_link eng d a) \<noteq> [])
                   (filter (matches [[Tag ''a'', HasAttr ''href'']]) (descendants w)))"
    by (simp add: l extract_links_def querySelectorAll_def filter_map comp_def)
  moreover have "\<forall>l \<in> set links. link_text l \<noteq> [] \<and> link_href l \<noteq> []"
    by (auto simp: l extract_links_def)
  ultimately show ?thesis using w by blast
qed

theorem extracted_links_in_document_order_witness:
  "mainWrapperData sample_lib twice_page = WrapperFound twice_links ''Idea of the dayRead more''
   \<and> length twice_links = 2
   \<and> link_text (twice_links ! 1) \<noteq> [] \<and> link_href (twice_links ! 1) \<noteq> []"
proof -
  have h: "mainWrapperData sample_lib twice_page = WrapperFound twice_links ''Idea of the dayRead more''"
    by (rule twice_extracted)
  have n: "length twice_links = 2" "twice_links ! 1 \<in> set twice_links"
    by (simp_all add: twice_links_def)
  from extracted_links_in_document_order [OF h] h n show ?thesis by blast
qed

text \<open>
  C3, as the claim states it, fails: two anchors of the container that point to the same page
  give two links with the same URL.
\<close>

theorem extracted_links_share_href:
  "mainWrapperData sample_lib twice_page = WrapperFound twice_links ''Idea of the dayRead more''
   \<and> \<not> distinct (map link_href twice_links)"
  by code_simp

section \<open>The index\<close>

text \<open>
  C4, as the code has it. The index is not a function of the list of results: it begins with
  the time at which it was started, and its entries show the title and the description of
  each page, which the results do not carry. It is a function of that time, of the links and
  of what the index shows of each visit (the error message, or the URL, the title and the
  description of the page): two runs of the loop that agree on these leave the same index,
  byte for byte.
\<close>

theorem index_determined_by_clock_links_outcomes:
  assumes "index_clock e = index_clock e'"
    and "\<forall>k < length links.
           index_view (attempt e (k + 1) (links ! k)) = index_view (attempt e' (k + 1) (links ! k))"
  shows "indexMd (crawl_loop e od imd 0 links
            \<lparr>indexMd = index_header (index_clock e) (length links), results = [], world = w\<rparr>)
       = indexMd (crawl_loop e' od' imd' 0 links
            \<lparr>indexMd = index_header (index_clock e') (length links), results = [], world = w'\<rparr>)"
proof -
  have "index_entry e (k + 1) (links ! k) = index_entry e' (k + 1) (links ! k)"
    if "k < length links" for k
    using assms(2) that by (simp add: index_entry_view)
  then have "map (\<lambda>k. index_entry e (k + 1) (links ! k)) [0..<length links]
           = map (\<lambda>k. index_entry e' (k + 1) (links ! k)) [0..<length links]"
    by simp
  then show ?thesis
    using assms(1) by (simp only: crawl_loop_index_positions loop_state.simps)
qed

theorem index_determined_by_clock_links_outcomes_witness:
  "index_clock scenario = index_clock scenario_rerun
   \<and> index_view (attempt scenario (0 + 1) (abc ! 0)) = index_view (attempt scenario_rerun (0 + 1) (abc ! 0))
   \<and> index_view (attempt scenario (1 + 1) (abc ! 1)) = index_view (attempt scenario_rerun (1 + 1) (abc ! 1))
   \<and> index_view (attempt scenario (2 + 1) (abc ! 2)) = index_view (attempt scenario_rerun (2 + 1) (abc ! 2))
   \<and> length abc = 3
   \<and> scenario \<noteq> scenario_rerun
   \<and> indexMd (crawl_loop scenario ''a'' ''a/images'' 0 abc
            \<lparr>indexMd = index_header (index_clock scenario) (length abc), results = [], world = fresh\<rparr>)
       = indexMd (crawl_loop scenario_rerun ''b'' ''b/images'' 0 abc
            \<lparr>indexMd = index_header (index_clock scenario_rerun) (length abc), results = [], world = fresh\<rparr>)"
proof -
  have c: "index_clock scenario = index_clock scenario_rerun"
    by (simp add: scenario_rerun_def)
  have v0: "index_view (attempt scenario (0 + 1) (abc ! 0))
              = index_view (attempt scenario_rerun (0 + 1) (abc ! 0))"
    by code_simp
  have v1: "index_view (attempt scenario (1 + 1) (abc ! 1))
              = index_view (attempt scenario_rerun (1 + 1) (abc ! 1))"
    by code_simp
  have v2: "index_view (attempt scenario (2 + 1) (abc ! 2))
              = index_view (attempt scenario_rerun (2 + 1) (abc ! 2))"
    by code_simp
  have n: "length abc = 3" by (simp add: abc_def)
  then have v: "\<forall>k < length abc.
      index_view (attempt scenario (k + 1) (abc ! k)) = index_view (attempt scenario_rerun (k + 1) (abc ! k))"
    using v0 v1 v2 less_3 by metis
  have "dir_clock scenario \<noteq> dir_clock scenario_rerun"
    by (simp add: scenario_rerun_def scenario_def)
  then have d: "scenario \<noteq> scenario_rerun" by auto
  from index_determined_by_clock_links_outcomes [OF c v] c v0 v1 v2 n d show ?thesis by blast
qed

text \<open>
  C4, as the claim states it, fails: the scenario run and the same run with the index clock
  five seconds later leave the same list of results and different index texts.
\<close>

theorem index_not_function_of_results:
  "results (final (main scenario)) = results (final (main scenario_later))
   \<and> indexMd (final (main scenario)) \<noteq> indexMd (final (main scenario_later))"
  by code_simp

section \<open>The results of a run\<close>





section \<open>The primary content region\<close>

lemma find_first_match:
  "(\<forall>n \<in> set pre. \<not> P n) \<Longrightarrow> P el \<Longrightarrow> find P (pre @ el # post) = Some el"
  by (induction pre) simp_all

lemma matches_remove_matching: "matches sel (remove_matching sel' n) = matches sel n"
proof (cases n)
  case (Text s)
  then show ?thesis by simp
next
  case (Element t as ks)
  have "matches_simple (remove_matching sel' (Element t as ks)) x = matches_simple (Element t as ks) x" for x
    by (cases x) (simp_all add: classList_def)
  then have "matches_simple (remove_matching sel' n) = matches_simple n"
    using Element by (simp only: fun_eq_iff) simp
  then show ?thesis by (simp only: matches_def)
qed

lemma subtree_remove_matching:
  "n \<in> set (concat (map subtree (childNodes (remove_matching sel m)))) \<Longrightarrow> \<not> matches sel n"
proof (induction sel m arbitrary: n rule: remove_matching.induct)
  case (1 sel s)
  then show ?case by simp
next
  case (2 sel t as ks)
  from "2.prems" obtain k where k: "k \<in> set ks" "\<not> matches sel k"
    and n: "n \<in> set (subtree (remove_matching sel k))"
    by auto
  show ?case
  proof (cases "n = remove_matching sel k")
    case True
    then show ?thesis using k by (simp add: matches_remove_matching)
  next
    case False
    then have "n \<in> set (concat (map subtree (childNodes (remove_matching sel k))))"
      using n by (cases k) auto
    then show ?thesis using "2.IH" k by simp
  qed
qed

lemma remove_matching_nothing:
  "(\<forall>n \<in> set (concat (map subtree (childNodes m))). \<not> matches sel n) \<Longrightarrow> remove_matching sel m = m"
proof (induction sel m rule: remove_matching.induct)
  case (1 sel s)
  then show ?case by simp
next
  case (2 sel t as ks)
  have a: "\<not> matches sel k" if "k \<in> set ks" for k
    using "2.prems" that by (cases k) auto
  then have f: "filter (\<lambda>k. \<not> matches sel k) ks = ks" by simp
  have "remove_matching sel k = k" if "k \<in> set ks" for k
  proof -
    have "\<forall>n \<in> set (concat (map subtree (childNodes k))). \<not> matches sel n"
      using "2.prems" that by (cases k) auto
    then show ?thesis using "2.IH" that a by simp
  qed
  then have "map (remove_matching sel) ks = ks" by (simp add: map_idI)
  then show ?case by (simp add: f)
qed

text \<open>
  C6, as the code has it. The candidates are one selector group, so the region is found in
  document order, not in the order of the candidates: where the first element of the page
  that matches any of them is also the first such element of the copy of the body from
  which the non-content elements were removed, the content is the HTML of that element.
  When no element of the page matches, and when the HTML of that element is empty, the
  content is the HTML of the stripped copy. No descendant of that copy matches a non-content
  selector, and a body without such descendants is copied as it is. Nothing is said here of
  a page on which the first match of the page and the first match of the stripped copy
  differ.
\<close>

theorem mainContent_first_match_in_document_order:
  "((\<forall>n \<in> set (subtree (document_root d)). \<not> matches content_candidates n) \<longrightarrow>
       mainContent eng d = innerHTML eng (childNodes (stripped_body d)))
   \<and> (\<forall>pre el post.
         subtree (document_root d) = pre @ el # post \<and> matches content_candidates el
         \<and> (\<forall>n \<in> set pre. \<not> matches content_candidates n)
         \<and> find (matches content_candidates) (descendants (stripped_body d)) = Some el \<longrightarrow>
         mainContent eng d =
           (if innerHTML eng (childNodes el) \<noteq> [] then innerHTML eng (childNodes el)
            else innerHTML eng (childNodes (stripped_body d))))
   \<and> (\<forall>n \<in> set (descendants (stripped_body d)). \<not> matches non_content n)
   \<and> ((\<forall>n \<in> set (descendants (document_body d)). \<not> matches non_content n) \<longrightarrow>
        stripped_body d = document_body d)"
proof -
  have a: "mainContent eng d = innerHTML eng (childNodes (stripped_body d))"
    if "\<forall>n \<in> set (subtree (document_root d)). \<not> matches content_candidates n"
  proof -
    from that have "doc_querySelector d content_candidates = None"
      unfolding doc_querySelector_def find_None_iff by blast
    then show ?thesis by (simp add: mainContent_def)
  qed
  have b: "mainContent eng d =
           (if innerHTML eng (childNodes el) \<noteq> [] then innerHTML eng (childNodes el)
            else innerHTML eng (childNodes (stripped_body d)))"
    if "subtree (document_root d) = pre @ el # post \<and> matches content_candidates el
         \<and> (\<forall>n \<in> set pre. \<not> matches content_candidates n)
         \<and> find (matches content_candidates) (descendants (stripped_body d)) = Some el" for pre el post
  proof -
    from that have "doc_querySelector d content_candidates = Some el"
      unfolding doc_querySelector_def by (simp add: find_first_match)
    then show ?thesis by (simp add: mainContent_def)
  qed
  have c: "\<forall>n \<in> set (descendants (stripped_body d)). \<not> matches non_content n"
    using subtree_remove_matching [of _ non_content "document_body d"]
    by (simp add: descendants_def stripped_body_def)
  have e: "stripped_body d = document_body d"
    if "\<forall>n \<in> set (descendants (document_body d)). \<not> matches non_content n"
    using that remove_matching_nothing [of "document_body d" non_content]
    by (simp add: descendants_def stripped_body_def)
  from a b c e show ?thesis by blast
qed

theorem mainContent_first_match_in_document_order_witness:
  "mainContent sample_lib plain_page = ''Hello''
   \<and> subtree (document_root article_first)
       = [document_root article_first, Element ''head'' [] [], document_body article_first]
         @ Element ''article'' [] [Text ''teaser'']
         # [Text ''teaser'', Element ''main'' [] [Text ''the content''], Text ''the content'']
   \<and> matches content_candidates (Element ''article'' [] [Text ''teaser''])
   \<and> find (matches content_candidates) (descendants (stripped_body article_first))
       = Some (Element ''article'' [] [Text ''teaser''])
   \<and> mainContent sample_lib article_first = ''teaser''
   \<and> stripped_body article_first = document_body article_first"
proof -
  have p: "\<forall>n \<in> set (subtree (document_root plain_page)). \<not> matches content_candidates n"
    by code_simp
  have ph: "innerHTML sample_lib (childNodes (stripped_body plain_page)) = ''Hello''"
    by code_simp
  have q: "subtree (document_root article_first)
       = [document_root article_first, Element ''head'' [] [], document_body article_first]
         @ Element ''article'' [] [Text ''teaser'']
         # [Text ''teaser'', Element ''main'' [] [Text ''the content''], Text ''the content'']
     \<and> matches content_candidates (Element ''article'' [] [Text ''teaser''])
     \<and> (\<forall>n \<in> set [document_root article_first, Element ''head'' [] [], document_body article_first].
           \<not> matches content_candidates n)"
    by code_simp
  have qs: "find (matches content_candidates) (descendants (stripped_body article_first))
       = Some (Element ''article'' [] [Text ''teaser''])"
    by code_simp
  have qh: "innerHTML sample_lib (childNodes (Element ''article'' [] [Text ''teaser''])) = ''teaser''"
    by code_simp
  have r: "\<forall>n \<in> set (descendants (document_body article_first)). \<not> matches non_content n"
    by code_simp
  have r1: "mainContent sample_lib plain_page = ''Hello''"
    using mainContent_first_match_in_document_order [of plain_page sample_lib] p ph by simp
  have r2: "mainContent sample_lib article_first = ''teaser''"
    using mainContent_first_match_in_document_order [of article_first sample_lib] q qs qh
    by (metis list.distinct(1) list.simps(3))
  have r3: "stripped_body article_first = document_body article_first"
    using mainContent_first_match_in_document_order [of article_first sample_lib] r by blast
  from q qs r1 r2 r3 show ?thesis by blast
qed

text \<open>
  C6, as the claim states it, fails: on a page whose \<^verbatim>\<open>article\<close> comes before its
  \<^verbatim>\<open>main\<close>, the content is the one of the \<^verbatim>\<open>article\<close>, while the first candidate
  with a match, tried in the order of the list, is \<^verbatim>\<open>main\<close>.
\<close>

theorem mainContent_not_by_precedence:
  "doc_querySelector article_first content_candidates = Some (Element ''article'' [] [Text ''teaser''])
   \<and> first_by_precedence article_first content_candidates = Some (Element ''main'' [] [Text ''the content''])
   \<and> mainContent sample_lib article_first = ''teaser''"
  by code_simp

section \<open>The files of a failed link\<close>

text \<open>
  C7 fails on the code. In the scenario where the page of B loads and is captured and its
  extraction then fails, the result of B has \<open>success = False\<close> and no content document
  is written for it, and its image \<^verbatim>\<open>images/02-b.png\<close> stays in the output directory:
  three images for two successful links.
\<close>

theorem failed_link_leaves_image:
  "map success (results (final (main captured_then_failed))) = [True, False, True]
   \<and> map fst (files (world (final (main captured_then_failed))))
       = [''first-section-crawl/2025-07-14/main-wrapper.html'',
          ''first-section-crawl/2025-07-14/images/01-a.png'',
          ''first-section-crawl/2025-07-14/01-a.md'',
          ''first-section-crawl/2025-07-14/images/02-b.png'',
          ''first-section-crawl/2025-07-14/images/03-c.png'',
          ''first-section-crawl/2025-07-14/03-c.md'',
          ''first-section-crawl/2025-07-14/INDEX.md'',
          ''first-section-crawl/2025-07-14/results.json'']"
  by code_simp

section \<open>The order of the index\<close>

text \<open>
  C8. The index that the loop leaves is the header followed by one entry for each link, in
  the order of the list of links, and the links are navigated to in that order. The entry of
  link \<open>k\<close> is written out here: it begins with the number \<open>k + 1\<close> and the text of
  the link; when the visit of that link failed it is the entry marked as an error, with the
  URL of the link and the message, and when it succeeded it is the entry with the name of
  the content document, the URL, the title, the description if there is one, and the
  image, at the same position in both cases. A run that extracts links from the loaded
  homepage and can write its files writes this text, after the header of the script, to
  \<^verbatim>\<open>INDEX.md\<close>.
\<close>

theorem index_entries_in_link_order:
  "indexMd (crawl_loop e od imd 0 links \<lparr>indexMd = hdr, results = [], world = w\<rparr>)
     = hdr @ concat (map (\<lambda>k. index_entry e (k + 1) (links ! k)) [0..<length links])
   \<and> navigated (world (crawl_loop e od imd 0 links \<lparr>indexMd = hdr, results = [], world = w\<rparr>))
       = navigated w @ map link_href links
   \<and> (\<forall>k < length links.
         (\<forall>err. fst (try_link e od imd (k + 1) (links ! k) w') = Inl err \<longrightarrow>
            index_entry e (k + 1) (links ! k)
              = ''### '' @ String (k + 1) @ ''. '' @ link_text (links ! k) @ '' ''
                @ [CHR 0xE2, CHR 0x9A, CHR 0xA0, CHR 0xEF, CHR 0xB8, CHR 0x8F] @ '' ERROR\<newline>\<newline>''
                @ ''- **URL:** '' @ link_href (links ! k) @ ''\<newline>''
                @ ''- **Error:** '' @ err @ ''\<newline>\<newline>''
                @ ''---\<newline>\<newline>'')
       \<and> (\<forall>pd md shot. fst (try_link e od imd (k + 1) (links ! k) w') = Inr (pd, md, shot) \<longrightarrow>
            index_entry e (k + 1) (links ! k)
              = ''### '' @ String (k + 1) @ ''. ['' @ link_text (links ! k) @ ''](''
                @ mdFilename (k + 1) (link_text (links ! k)) @ '')\<newline>\<newline>''
                @ ''- **URL:** '' @ pd_url pd @ ''\<newline>''
                @ ''- **Title:** '' @ pd_title pd @ ''\<newline>''
                @ (if pd_metaDescription pd \<noteq> []
                   then ''- **Description:** '' @ pd_metaDescription pd @ ''\<newline>'' else [])
                @ ''\<newline>![Preview](images/'' @ screenshotFilename (k + 1) (link_text (links ! k))
                @ '')\<newline>\<newline>''
                @ ''---\<newline>\<newline>''))
   \<and> (\<forall>d html. homepage_loaded e d \<and> mainWrapperData (lib e) d = WrapperFound links html
         \<and> (html = [] \<or> html_write_fails e = None) \<and> links \<noteq> [] \<and> index_write_fails e = None \<longrightarrow>
         (path_join (outputDir_of e) ''INDEX.md'',
          ''# Main Wrapper Links Crawl\<newline>\<newline>''
            @ ''**Date:** '' @ index_clock e @ ''\<newline>\<newline>''
            @ ''**Source:** https://www.ideabrowser.com/\<newline>\<newline>''
            @ ''**Total Links Found:** '' @ String (length links) @ ''\<newline>\<newline>''
            @ ''---\<newline>\<newline>''
            @ ''## Links\<newline>\<newline>''
            @ concat (map (\<lambda>k. index_entry e (k + 1) (links ! k)) [0..<length links]))
           \<in> set (files (world (final (main e))))
       \<and> navigated (world (final (main e))) = homepage # map link_href links)"
proof -
  have a: "indexMd (crawl_loop e od imd 0 links \<lparr>indexMd = hdr, results = [], world = w\<rparr>)
             = hdr @ concat (map (\<lambda>k. index_entry e (k + 1) (links ! k)) [0..<length links])"
    by (simp add: crawl_loop_index_positions del: upt.simps)
  have b: "navigated (world (crawl_loop e od imd 0 links \<lparr>indexMd = hdr, results = [], world = w\<rparr>))
             = navigated w @ map link_href links"
    by (simp add: crawl_loop_navigated)
  have c: "index_entry e (k + 1) (links ! k)
              = ''### '' @ String (k + 1) @ ''. '' @ link_text (links ! k) @ '' ''
                @ [CHR 0xE2, CHR 0x9A, CHR 0xA0, CHR 0xEF, CHR 0xB8, CHR 0x8F] @ '' ERROR\<newline>\<newline>''
                @ ''- **URL:** '' @ link_href (links ! k) @ ''\<newline>''
                @ ''- **Error:** '' @ err @ ''\<newline>\<newline>''
                @ ''---\<newline>\<newline>''"
    if "fst (try_link e od imd (k + 1) (links ! k) w') = Inl err" for k err
    using that by (simp add: fst_try_link index_entry_def error_entry_def warning_sign_def)
  have d: "index_entry e (k + 1) (links ! k)
              = ''### '' @ String (k + 1) @ ''. ['' @ link_text (links ! k) @ ''](''
                @ mdFilename (k + 1) (link_text (links ! k)) @ '')\<newline>\<newline>''
                @ ''- **URL:** '' @ pd_url pd @ ''\<newline>''
                @ ''- **Title:** '' @ pd_title pd @ ''\<newline>''
                @ (if pd_metaDescription pd \<noteq> []
                   then ''- **Description:** '' @ pd_metaDescription pd @ ''\<newline>'' else [])
                @ ''\<newline>![Preview](images/'' @ screenshotFilename (k + 1) (link_text (links ! k))
                @ '')\<newline>\<newline>''
                @ ''---\<newline>\<newline>''"
    if "fst (try_link e od imd (k + 1) (links ! k) w') = Inr (pd, md, shot)" for k pd md shot
  proof -
    from that have t: "attempt e (k + 1) (links ! k) = Inr (pd, md, shot)"
      by (simp add: fst_try_link)
    from attempt_names [OF t] t show ?thesis
      by (simp add: index_entry_def success_entry_def)
  qed
  have run: "(path_join (outputDir_of e) ''INDEX.md'',
          ''# Main Wrapper Links Crawl\<newline>\<newline>''
            @ ''**Date:** '' @ index_clock e @ ''\<newline>\<newline>''
            @ ''**Source:** https://www.ideabrowser.com/\<newline>\<newline>''
            @ ''**Total Links Found:** '' @ String (length links) @ ''\<newline>\<newline>''
            @ ''---\<newline>\<newline>''
            @ ''## Links\<newline>\<newline>''
            @ concat (map (\<lambda>k. index_entry e (k + 1) (links ! k)) [0..<length links]))
           \<in> set (files (world (final (main e))))
       \<and> navigated (world (final (main e))) = homepage # map link_href links"
    if "homepage_loaded e d \<and> mainWrapperData (lib e) d = WrapperFound links html
         \<and> (html = [] \<or> html_write_fails e = None) \<and> links \<noteq> [] \<and> index_write_fails e = None" for d html
  proof -
    from that have h: "homepage_loaded e d" "mainWrapperData (lib e) d = WrapperFound links html"
      "html = [] \<or> html_write_fails e = None" and i: "links \<noteq> []" "index_write_fails e = None"
      by simp_all
    have "index_header (index_clock e) (length links)
            = ''# Main Wrapper Links Crawl\<newline>\<newline>''
            @ ''**Date:** '' @ index_clock e @ ''\<newline>\<newline>''
            @ ''**Source:** https://www.ideabrowser.com/\<newline>\<newline>''
            @ ''**Total Links Found:** '' @ String (length links) @ ''\<newline>\<newline>''
            @ ''---\<newline>\<newline>''
            @ ''## Links\<newline>\<newline>''"
      by (simp add: index_header_def)
    with main_crawled(3) [OF h i] main_crawled(2) [OF h] show ?thesis by simp
  qed
  from a b c d run show ?thesis by blast
qed

lemma scenario_outputDir: "outputDir_of scenario = ''first-section-crawl/2025-07-14''"
proof -
  have "timestamp ''2025-07-14T09:30:00.000Z'' = ''2025-07-14''"
    by code_simp
  then show ?thesis
    by (simp add: outputDir_of_def scenario_def path_join_def)
qed

theorem index_entries_in_link_order_witness:
  "(1::nat) < length abc
   \<and> fst (try_link scenario ''out'' ''out/images'' (1 + 1) (abc ! 1) fresh)
       = Inl ''Navigation timeout of 30000 ms exceeded''
   \<and> index_entry scenario (1 + 1) (abc ! 1)
       = ''### 2. B '' @ [CHR 0xE2, CHR 0x9A, CHR 0xA0, CHR 0xEF, CHR 0xB8, CHR 0x8F] @ '' ERROR\<newline>\<newline>''
         @ ''- **URL:** https://www.ideabrowser.com/b\<newline>''
         @ ''- **Error:** Navigation timeout of 30000 ms exceeded\<newline>\<newline>''
         @ ''---\<newline>\<newline>''
   \<and> indexMd (crawl_loop scenario ''out'' ''out/images'' 0 abc \<lparr>indexMd = ''header'', results = [], world = fresh\<rparr>)
       = ''header'' @ concat (map (\<lambda>k. index_entry scenario (k + 1) (abc ! k)) [0..<length abc])
   \<and> homepage_loaded scenario abc_page
   \<and> mainWrapperData (lib scenario) abc_page = WrapperFound abc ''ABC''
   \<and> html_write_fails scenario = None \<and> abc \<noteq> [] \<and> index_write_fails scenario = None
   \<and> (''first-section-crawl/2025-07-14/INDEX.md'',
       ''# Main Wrapper Links Crawl\<newline>\<newline>''
         @ ''**Date:** 2025-07-14T09:30:05.000Z\<newline>\<newline>''
         @ ''**Source:** https://www.ideabrowser.com/\<newline>\<newline>''
         @ ''**Total Links Found:** 3\<newline>\<newline>''
         @ ''---\<newline>\<newline>''
         @ ''## Links\<newline>\<newline>''
         @ concat (map (\<lambda>k. index_entry scenario (k + 1) (abc ! k)) [0..<length abc]))
        \<in> set (files (world (final (main scenario))))"
proof -
  have k: "(1::nat) < length abc" "abc \<noteq> []" by (simp_all add: abc_def)
  note t = scenario_timeout
  note s = scenario_loaded(1) scenario_extracted scenario_loaded(2) scenario_loaded(3)
  have n: "String (1 + 1) = ''2''" "String (length abc) = ''3''"
    by code_simp+
  have p: "path_join (outputDir_of scenario) ''INDEX.md'' = ''first-section-crawl/2025-07-14/INDEX.md''"
    "index_clock scenario = ''2025-07-14T09:30:05.000Z''"
    "link_text (abc ! 1) = ''B''" "link_href (abc ! 1) = ''https://www.ideabrowser.com/b''"
    by (simp_all add: scenario_outputDir path_join_def) (simp_all add: scenario_def abc_def)
  from index_entries_in_link_order
         [where e = scenario and od = "''out''" and imd = "''out/images''" and links = abc
            and hdr = "''header''" and w = fresh and w' = fresh]
  have "index_entry scenario (1 + 1) (abc ! 1)
              = ''### '' @ String (1 + 1) @ ''. '' @ link_text (abc ! 1) @ '' ''
                @ [CHR 0xE2, CHR 0x9A, CHR 0xA0, CHR 0xEF, CHR 0xB8, CHR 0x8F] @ '' ERROR\<newline>\<newline>''
                @ ''- **URL:** '' @ link_href (abc ! 1) @ ''\<newline>''
                @ ''- **Error:** '' @ ''Navigation timeout of 30000 ms exceeded'' @ ''\<newline>\<newline>''
                @ ''---\<newline>\<newline>''
   \<and> indexMd (crawl_loop scenario ''out'' ''out/images'' 0 abc \<lparr>indexMd = ''header'', results = [], world = fresh\<rparr>)
       = ''header'' @ concat (map (\<lambda>k. index_entry scenario (k + 1) (abc ! k)) [0..<length abc])
   \<and> (path_join (outputDir_of scenario) ''INDEX.md'',
       ''# Main Wrapper Links Crawl\<newline>\<newline>''
            @ ''**Date:** '' @ index_clock scenario @ ''\<newline>\<newline>''
            @ ''**Source:** https://www.ideabrowser.com/\<newline>\<newline>''
            @ ''**Total Links Found:** '' @ String (length abc) @ ''\<newline>\<newline>''
            @ ''---\<newline>\<newline>''
            @ ''## Links\<newline>\<newline>''
         @ concat (map (\<lambda>k. index_entry scenario (k + 1) (abc ! k)) [0..<length abc]))
        \<in> set (files (world (final (main scenario))))"
    using k t s by (metis (no_types, lifting))
  then show ?thesis using k t s by (simp only: p n) simp
qed

section \<open>Failures of the setup and the exit status\<close>

text \<open>
  C9, as the code has it. A failure of the launch or of the load of the homepage is caught
  by the handler around the script, printed as a fatal error, and nothing is crawled; a
  missing container ends the run after the container error and the available sections are
  printed. None of this reaches the exit status, and no failure of a link does: the script
  sets no status and never rethrows, so the status is 0 unless the browser was launched and
  closing it fails, and then it is what the runtime gives to an unhandled rejection.
\<close>

theorem setup_failures_end_run_exit_status_unaffected:
  "exit_status unhandled (main e) = (if launch_fails e = None \<and> close_fails e \<noteq> None then unhandled else 0)
   \<and> (\<forall>err. launch_fails e = Some err \<longrightarrow>
         ending (main e) = Inl err \<and> printed (world (final (main e))) = [FatalError err]
         \<and> results (final (main e)) = [] \<and> navigated (world (final (main e))) = []
         \<and> files (world (final (main e))) = [])
   \<and> (\<forall>err. reaches_homepage e \<and> home_goto_fails e = Some err \<longrightarrow>
         ending (main e) = Inl err \<and> printed (world (final (main e))) = [FatalError err]
         \<and> results (final (main e)) = [] \<and> navigated (world (final (main e))) = [homepage]
         \<and> files (world (final (main e))) = [])
   \<and> (\<forall>d msg. homepage_loaded e d \<and> mainWrapperData (lib e) d = WrapperError msg \<and> sections_fails e = None \<longrightarrow>
         ending (main e) = Inr ContainerMissing
         \<and> printed (world (final (main e))) = [ContainerError msg, AvailableSections (sections d)]
         \<and> results (final (main e)) = [] \<and> navigated (world (final (main e))) = [homepage]
         \<and> files (world (final (main e))) = [])"
proof -
  have a: "exit_status unhandled (main e)
             = (if launch_fails e = None \<and> close_fails e \<noteq> None then unhandled else 0)"
    by (simp add: exit_status_def promise_main split: option.splits)
  have b: "ending (main e) = Inl err \<and> printed (world (final (main e))) = [FatalError err]
         \<and> results (final (main e)) = [] \<and> navigated (world (final (main e))) = []
         \<and> files (world (final (main e))) = []" if "launch_fails e = Some err" for err
    using that by (simp add: main_launch_fails fresh_def)
  have c: "ending (main e) = Inl err \<and> printed (world (final (main e))) = [FatalError err]
         \<and> results (final (main e)) = [] \<and> navigated (world (final (main e))) = [homepage]
         \<and> files (world (final (main e))) = []"
    if "reaches_homepage e \<and> home_goto_fails e = Some err" for err
    using that main_try_home_goto_fails [of e err] by (simp add: main_fields)
  have d: "ending (main e) = Inr ContainerMissing
         \<and> printed (world (final (main e))) = [ContainerError msg, AvailableSections (sections d)]
         \<and> results (final (main e)) = [] \<and> navigated (world (final (main e))) = [homepage]
         \<and> files (world (final (main e))) = []"
    if "homepage_loaded e d \<and> mainWrapperData (lib e) d = WrapperError msg \<and> sections_fails e = None" for d msg
    using that main_try_container_missing [of e d msg] by (simp add: main_fields)
  from a b c d show ?thesis by blast
qed

theorem setup_failures_end_run_exit_status_unaffected_witness:
  "launch_fails no_browser = Some ''Failed to launch the browser process''
   \<and> ending (main no_browser) = Inl ''Failed to launch the browser process''
   \<and> printed (world (final (main no_browser))) = [FatalError ''Failed to launch the browser process'']
   \<and> exit_status 1 (main no_browser) = 0
   \<and> reaches_homepage homepage_down \<and> home_goto_fails homepage_down = Some ''net::ERR_NAME_NOT_RESOLVED''
   \<and> ending (main homepage_down) = Inl ''net::ERR_NAME_NOT_RESOLVED''
   \<and> navigated (world (final (main homepage_down))) = [homepage]
   \<and> exit_status 1 (main homepage_down) = 0
   \<and> homepage_loaded bare bare_page
   \<and> mainWrapperData (lib bare) bare_page = WrapperError ''Could not find #main-wrapper element''
   \<and> sections_fails bare = None
   \<and> ending (main bare) = Inr ContainerMissing
   \<and> exit_status 1 (main bare) = 0"
proof -
  have n: "launch_fails no_browser = Some ''Failed to launch the browser process''"
    by (simp add: no_browser_def)
  have h: "reaches_homepage homepage_down \<and> home_goto_fails homepage_down = Some ''net::ERR_NAME_NOT_RESOLVED''"
    "launch_fails homepage_down = None" "close_fails homepage_down = None"
    by (simp_all add: homepage_down_def scenario_def reaches_homepage_def)
  have b: "homepage_loaded bare bare_page
      \<and> mainWrapperData (lib bare) bare_page = WrapperError ''Could not find #main-wrapper element''
      \<and> sections_fails bare = None" "launch_fails bare = None" "close_fails bare = None"
    by (simp_all add: bare_missing) (simp_all add: bare_def scenario_def homepage_loaded_def reaches_homepage_def)
  have r1: "ending (main no_browser) = Inl ''Failed to launch the browser process''
      \<and> printed (world (final (main no_browser))) = [FatalError ''Failed to launch the browser process'']
      \<and> exit_status 1 (main no_browser) = 0"
    using setup_failures_end_run_exit_status_unaffected [of 1 no_browser] n by auto
  have r2: "ending (main homepage_down) = Inl ''net::ERR_NAME_NOT_RESOLVED''
      \<and> navigated (world (final (main homepage_down))) = [homepage]
      \<and> exit_status 1 (main homepage_down) = 0"
    using setup_failures_end_run_exit_status_unaffected [of 1 homepage_down] h by auto
  have r3: "ending (main bare) = Inr ContainerMissing \<and> exit_status 1 (main bare) = 0"
    using setup_failures_end_run_exit_status_unaffected [of 1 bare] b by auto
  from n h b r1 r2 r3 show ?thesis by blast
qed

text \<open>
  C9, as the claim states it, fails: when the browser cannot be launched, a failure of the
  setup, the run prints the fatal error and the process still ends with status 0.
\<close>

theorem launch_failure_exit_status_zero:
  "launch_fails no_browser = Some ''Failed to launch the browser process''
   \<and> ending (main no_browser) = Inl ''Failed to launch the browser process''
   \<and> printed (world (final (main no_browser))) = [FatalError ''Failed to launch the browser process'']
   \<and> exit_status 1 (main no_browser) = 0"
  by code_simp

end
